theory Spec2Isabelle
  imports Main "HOL-Library.Word" "HOL-Library.Multiset"
begin

section \<open>The quota service's server: data model\<close>

text \<open>
  The repository holds two copies of the server (package quotaservice):
  \<^item> \<^verbatim>\<open>src/admin/ui_test.go\<close>, lines 74-399: \<^verbatim>\<open>Allow\<close> returns three values,
    \<^verbatim>\<open>updateConfig\<close> takes the user, \<^verbatim>\<open>readUpdatedConfig\<close> and
    \<^verbatim>\<open>HistoricalConfigs\<close> exist. Its functions keep their names below.
  \<^item> \<^verbatim>\<open>src/server.go\<close>: \<^verbatim>\<open>Allow\<close> returns two values, \<^verbatim>\<open>updateConfig\<close> takes
    the updater only. Its functions carry the suffix \<open>_server_go\<close>.

  The packages config, events, lifecycle and protos/config, the bucket container, the
  bucket interface and the persister are not under \<^verbatim>\<open>src/\<close>. What the server calls in
  them is a parameter of the model: a field of one of the records \<open>Buckets\<close>,
  \<open>Events\<close>, \<open>Configs\<close> and \<open>ConfigEdits\<close>. A parameter is a total function, so a panic inside one of
  these callees is outside the model. Locks are not modelled: every function below is
  one sequential run of its source.
\<close>

type_synonym int64 = "64 word"

text \<open>\<^verbatim>\<open>time.Duration\<close> is an int64 count of nanoseconds; \<^verbatim>\<open>time.Millisecond\<close> is 1000000.\<close>

type_synonym Duration = "64 word"

definition Millisecond :: Duration where
  "Millisecond = 1000000"

text \<open>
  The two fields of \<^verbatim>\<open>pb.BucketConfig\<close> that the server reads. Both are compared with
  int64 values in \<^verbatim>\<open>Allow\<close>, so both are int64.
\<close>

record BucketConfig =
  WaitTimeoutMillis :: int64
  MaxTokensPerRequest :: int64

text \<open>
  \<^verbatim>\<open>pb.ServiceConfig\<close>: the three fields stamped by \<^verbatim>\<open>updateConfig\<close>, and the rest of the
  message (global defaults, namespaces) as \<open>Contents\<close>. \<^verbatim>\<open>Date\<close> receives
  \<^verbatim>\<open>time.Now().Unix()\<close>, an int64. The width of \<^verbatim>\<open>Version\<close> is declared in the generated
  protobuf code, which is not under \<^verbatim>\<open>src/\<close>: it is the parameter \<open>'v\<close>.
\<close>

record (overloaded) ('v, 'x) ServiceConfig =
  Version :: "'v word"
  User :: string
  Date :: int64
  Contents :: 'x

text \<open>The error reasons passed to \<^verbatim>\<open>newError\<close>; the message text is not modelled.\<close>

datatype ErrorReason =
  ER_NO_BUCKET | ER_TOO_MANY_BUCKETS | ER_TOO_MANY_TOKENS_REQUESTED | ER_TIMEOUT

text \<open>The events built by \<^verbatim>\<open>Allow\<close>, with the arguments of their constructors.\<close>

datatype Event =
  NewBucketMissedEvent string string bool
| NewTooManyTokensRequestedEvent string string bool int64
| NewTimedOutEvent string string bool int64
| NewTokensServedEvent string string bool int64 Duration

text \<open>Modelled from the spec: the event kinds of section 4.4 (package events is not
  under \<^verbatim>\<open>src/\<close>).\<close>

datatype EventKind = BUCKET_MISSED | TOO_MANY_TOKENS_REQUESTED | TIMED_OUT | TOKENS_SERVED

fun EventType :: "Event \<Rightarrow> EventKind" where
  "EventType (NewBucketMissedEvent ns name d) = BUCKET_MISSED"
| "EventType (NewTooManyTokensRequestedEvent ns name d n) = TOO_MANY_TOKENS_REQUESTED"
| "EventType (NewTimedOutEvent ns name d n) = TIMED_OUT"
| "EventType (NewTokensServedEvent ns name d n w) = TOKENS_SERVED"

text \<open>Modelled from the spec: the lifecycle states of section 4.5 (package lifecycle is
  not under \<^verbatim>\<open>src/\<close>; the server itself names Started and Stopped).\<close>

datatype Status = Initialized | Started | Stopped

text \<open>
  The server struct. \<open>bucketContainer\<close>, \<open>producer\<close> and \<open>cfgs\<close> are pointers that are
  nil on a fresh server (\<^verbatim>\<open>New\<close> in \<^verbatim>\<open>src/api.go\<close> sets none of them). The container
  \<open>'c\<close> and the producer \<open>'q\<close> are references into the heap \<open>'h\<close>, where the buckets
  and the producer's queue live; the config is held by value. The listeners, the
  bucket factory and the persister are interface values of absent packages: their state
  is in the heap and the store that the functions below pass along. The RPC endpoints
  \<open>'ep\<close> are interface values that the caller of \<^verbatim>\<open>New\<close> implements.
\<close>

record (overloaded) ('c, 'q, 'v, 'x, 'ep) server =
  currentStatus :: Status
  bucketContainer :: "'c option"
  rpcEndpoints :: "'ep list"
  eventQueueBufSize :: int
  producer :: "'q option"
  cfgs :: "('v, 'x) ServiceConfig option"

text \<open>
  What \<^verbatim>\<open>Allow\<close> calls on the container and on a bucket \<open>'b\<close>, over the heap \<open>'h\<close>:
  \<^verbatim>\<open>FindBucket\<close> returns Go's pair (bucket, error) and may create or touch a bucket
  (and, the container being built with a reference to the server, put events of its
  own into the producer's queue); \<^verbatim>\<open>Take\<close> returns (wait, success) and may move the
  bucket's state.
\<close>

record ('b, 'c, 'h, 'e) Buckets =
  FindBucket :: "'c option \<Rightarrow> string \<Rightarrow> string \<Rightarrow> 'h \<Rightarrow> ('b option \<times> 'e option) \<times> 'h"
  Config :: "'b \<Rightarrow> BucketConfig"
  Dynamic :: "'b \<Rightarrow> bool"
  Take :: "'b \<Rightarrow> int64 \<Rightarrow> Duration \<Rightarrow> 'h \<Rightarrow> (Duration \<times> bool) \<times> 'h"

text \<open>
  Package events: \<^verbatim>\<open>RegisterListener\<close> builds a producer for a buffer size, and the
  producer's own \<^verbatim>\<open>Emit\<close> takes an event into its queue.
\<close>

record ('q, 'h) Events =
  RegisterListener :: "int \<Rightarrow> 'h \<Rightarrow> 'q \<times> 'h"
  ProducerEmit :: "'q \<Rightarrow> Event \<Rightarrow> 'h \<Rightarrow> 'h"

text \<open>A Go panic is a result of its own: reading a field through a nil pointer, or a
  call of \<^verbatim>\<open>panic\<close> with its message.\<close>

datatype panic = NilPointerDereference | Panic string

section \<open>New\<close>

text \<open>
  \<^verbatim>\<open>New\<close> of \<^verbatim>\<open>src/api.go\<close>, lines 32-42: it panics without an RPC endpoint, and
  otherwise returns a server whose persister, bucket factory and endpoints are set and
  whose other fields are zero: no container, no producer, no config.
\<close>

definition New :: "'ep list \<Rightarrow> panic + ('c, 'q, 'v, 'x, 'ep) server" where
  "New endpoints =
     (if length endpoints = 0
      then Inl (Panic ''Need at least 1 RPC endpoint to run the quota service.'')
      else Inr \<lparr>currentStatus = Initialized, bucketContainer = None,
                rpcEndpoints = endpoints, eventQueueBufSize = 0,
                producer = None, cfgs = None\<rparr>)"

section \<open>Emit and Allow\<close>

text \<open>
  \<^verbatim>\<open>server.Emit\<close> (the same in both copies): nothing happens without a producer. The
  server struct itself is not written to, here or in \<^verbatim>\<open>Allow\<close>.
\<close>

definition Emit ::
  "('q, 'h) Events \<Rightarrow> ('c, 'q, 'v, 'x, 'ep) server \<Rightarrow> Event \<Rightarrow> 'h \<Rightarrow> 'h" where
  "Emit E s e h =
     (case producer s of
        None \<Rightarrow> h
      | Some q \<Rightarrow> ProducerEmit E q e h)"

text \<open>
  \<^verbatim>\<open>server.Allow\<close> of \<^verbatim>\<open>src/admin/ui_test.go\<close>, lines 159-202. The result is the triple
  (wait, dynamic, error), with the heap after the call.
\<close>

definition Allow ::
  "('b, 'c, 'h, 'e) Buckets \<Rightarrow> ('q, 'h) Events \<Rightarrow> ('c, 'q, 'v, 'x, 'ep) server \<Rightarrow> 'h \<Rightarrow>
   string \<Rightarrow> string \<Rightarrow> int64 \<Rightarrow> int64 \<Rightarrow> bool \<Rightarrow>
   (Duration \<times> bool \<times> ErrorReason option) \<times> 'h" where
  "Allow B E s h namespace name tokensRequested maxWaitMillisOverride maxWaitTimeOverride =
     (case FindBucket B (bucketContainer s) namespace name h of
        ((b, e), h1) \<Rightarrow>
          if e \<noteq> None then
            ((0, True, Some ER_TOO_MANY_BUCKETS),
             Emit E s (NewBucketMissedEvent namespace name True) h1)
          else
            (case b of
               None \<Rightarrow>
                 ((0, False, Some ER_NO_BUCKET),
                  Emit E s (NewBucketMissedEvent namespace name False) h1)
             | Some b \<Rightarrow>
                 if MaxTokensPerRequest (Config B b) <s tokensRequested
                    \<and> 0 <s MaxTokensPerRequest (Config B b) then
                   ((0, Dynamic B b, Some ER_TOO_MANY_TOKENS_REQUESTED),
                    Emit E s (NewTooManyTokensRequestedEvent namespace name (Dynamic B b)
                      tokensRequested) h1)
                 else
                   (let maxWaitTime =
                          (if maxWaitTimeOverride
                              \<and> maxWaitMillisOverride <s WaitTimeoutMillis (Config B b)
                           then Millisecond * maxWaitMillisOverride
                           else Millisecond * WaitTimeoutMillis (Config B b))
                    in case Take B b tokensRequested maxWaitTime h1 of
                         ((w, success), h2) \<Rightarrow>
                           if \<not> success then
                             ((0, Dynamic B b, Some ER_TIMEOUT),
                              Emit E s (NewTimedOutEvent namespace name (Dynamic B b)
                                tokensRequested) h2)
                           else
                             ((w, Dynamic B b, None),
                              Emit E s (NewTokensServedEvent namespace name (Dynamic B b)
                                tokensRequested w) h2))))"

text \<open>
  \<^verbatim>\<open>server.Allow\<close> of \<^verbatim>\<open>src/server.go\<close>, lines 78-118. The result is the pair
  (wait, error); the override is taken whenever \<^verbatim>\<open>maxWaitTimeOverride\<close> is set.
\<close>

definition Allow_server_go ::
  "('b, 'c, 'h, 'e) Buckets \<Rightarrow> ('q, 'h) Events \<Rightarrow> ('c, 'q, 'v, 'x, 'ep) server \<Rightarrow> 'h \<Rightarrow>
   string \<Rightarrow> string \<Rightarrow> int64 \<Rightarrow> int64 \<Rightarrow> bool \<Rightarrow>
   (Duration \<times> ErrorReason option) \<times> 'h" where
  "Allow_server_go B E s h namespace name tokensRequested maxWaitMillisOverride
       maxWaitTimeOverride =
     (case FindBucket B (bucketContainer s) namespace name h of
        ((b, e), h1) \<Rightarrow>
          if e \<noteq> None then
            ((0, Some ER_TOO_MANY_BUCKETS),
             Emit E s (NewBucketMissedEvent namespace name True) h1)
          else
            (case b of
               None \<Rightarrow>
                 ((0, Some ER_NO_BUCKET),
                  Emit E s (NewBucketMissedEvent namespace name False) h1)
             | Some b \<Rightarrow>
                 if MaxTokensPerRequest (Config B b) <s tokensRequested
                    \<and> 0 <s MaxTokensPerRequest (Config B b) then
                   ((0, Some ER_TOO_MANY_TOKENS_REQUESTED),
                    Emit E s (NewTooManyTokensRequestedEvent namespace name (Dynamic B b)
                      tokensRequested) h1)
                 else
                   (let maxWaitTime =
                          (if maxWaitTimeOverride
                           then Millisecond * maxWaitMillisOverride
                           else Millisecond * WaitTimeoutMillis (Config B b))
                    in case Take B b tokensRequested maxWaitTime h1 of
                         ((w, success), h2) \<Rightarrow>
                           if \<not> success then
                             ((0, Some ER_TIMEOUT),
                              Emit E s (NewTimedOutEvent namespace name (Dynamic B b)
                                tokensRequested) h2)
                           else
                             ((w, None),
                              Emit E s (NewTokensServedEvent namespace name (Dynamic B b)
                                tokensRequested w) h2))))"

section \<open>The configuration pipeline\<close>

text \<open>
  The persister's change channel, a \<^verbatim>\<open>chan struct{}\<close>: the signals waiting in it, and
  whether it has been closed. A receive takes a waiting signal, returns at once on a
  closed and empty channel, and blocks otherwise (\<open>None\<close>).
\<close>

record chan =
  pending :: nat
  closed :: bool

definition receive :: "chan \<Rightarrow> chan option" where
  "receive ch =
     (if 0 < pending ch then Some (ch\<lparr>pending := pending ch - 1\<rparr>)
      else if closed ch then Some ch
      else None)"

text \<open>
  What lies outside the server struct: the heap of buckets, containers, the bucket
  factory and the producer, the persister's store, its change channel, and the lines
  written by \<^verbatim>\<open>logging.Println\<close>.
\<close>

record ('h, 'p, 'e) world =
  heap :: 'h
  store :: 'p
  watcher :: chan
  logged :: "(string \<times> 'e) list"

text \<open>
  The persister, package config, the bucket factory and the container's constructor.
  A \<^verbatim>\<open>*pb.ServiceConfig\<close> that one of them receives or returns may be nil, so it is an
  option; each Go pair (value, error) is a pair with \<open>'e option\<close>.
  \<^verbatim>\<open>NewBucketContainer\<close> returns a fresh container, never nil.
\<close>

record (overloaded) ('r, 'e, 'p, 'v, 'x, 'c, 'h) Configs =
  ReadPersistedConfig :: "'p \<Rightarrow> 'r \<times> 'e option"
  ReadHistoricalConfigs :: "'p \<Rightarrow> 'r list \<times> 'e option"
  PersistAndNotify :: "'r \<Rightarrow> 'p \<times> chan \<Rightarrow> 'e option \<times> 'p \<times> chan"
  Unmarshal :: "'r \<Rightarrow> ('v, 'x) ServiceConfig option \<times> 'e option"
  Marshal :: "('v, 'x) ServiceConfig option \<Rightarrow> 'r \<times> 'e option"
  ApplyDefaults :: "('v, 'x) ServiceConfig \<Rightarrow> ('v, 'x) ServiceConfig"
  Init :: "('v, 'x) ServiceConfig option \<Rightarrow> 'h \<Rightarrow> 'h"
  NewBucketContainer :: "('v, 'x) ServiceConfig option \<Rightarrow> 'h \<Rightarrow> 'c \<times> 'h"

text \<open>\<^verbatim>\<open>server.createBucketContainer\<close> (the same in both copies).\<close>

definition createBucketContainer ::
  "('r, 'e, 'p, 'v, 'x, 'c, 'h) Configs \<Rightarrow> ('c, 'q, 'v, 'x, 'ep) server \<Rightarrow> ('h, 'p, 'e) world \<Rightarrow>
   ('v, 'x) ServiceConfig option \<Rightarrow> ('c, 'q, 'v, 'x, 'ep) server \<times> ('h, 'p, 'e) world" where
  "createBucketContainer D s w newConfig =
     (let h1 = Init D newConfig (heap w);
          s1 = s\<lparr>cfgs := newConfig\<rparr>
      in case NewBucketContainer D (cfgs s1) h1 of
           (c, h2) \<Rightarrow> (s1\<lparr>bucketContainer := Some c\<rparr>, w\<lparr>heap := h2\<rparr>))"

text \<open>\<^verbatim>\<open>server.readUpdatedConfig\<close> of \<^verbatim>\<open>src/admin/ui_test.go\<close>, lines 248-264.\<close>

definition readUpdatedConfig ::
  "('r, 'e, 'p, 'v, 'x, 'c, 'h) Configs \<Rightarrow> ('c, 'q, 'v, 'x, 'ep) server \<Rightarrow> ('h, 'p, 'e) world \<Rightarrow>
   ('c, 'q, 'v, 'x, 'ep) server \<times> ('h, 'p, 'e) world" where
  "readUpdatedConfig D s w =
     (case ReadPersistedConfig D (store w) of
        (configReader, Some err) \<Rightarrow>
          (s, w\<lparr>logged := logged w @ [(''error reading persisted config'', err)]\<rparr>)
      | (configReader, None) \<Rightarrow>
          (case Unmarshal D configReader of
             (newConfig, Some err) \<Rightarrow>
               (s, w\<lparr>logged := logged w @ [(''error reading marshalled config'', err)]\<rparr>)
           | (newConfig, None) \<Rightarrow> createBucketContainer D s w newConfig))"

text \<open>
  The body of the loop of \<^verbatim>\<open>server.configListener\<close> in \<^verbatim>\<open>src/server.go\<close>, lines
  160-172: each error is logged and the run goes on to the next statement.
\<close>

definition configListener_body_server_go ::
  "('r, 'e, 'p, 'v, 'x, 'c, 'h) Configs \<Rightarrow> ('c, 'q, 'v, 'x, 'ep) server \<Rightarrow> ('h, 'p, 'e) world \<Rightarrow>
   ('c, 'q, 'v, 'x, 'ep) server \<times> ('h, 'p, 'e) world" where
  "configListener_body_server_go D s w =
     (case ReadPersistedConfig D (store w) of
        (configReader, err) \<Rightarrow>
          (let w1 = (case err of
                       None \<Rightarrow> w
                     | Some e \<Rightarrow>
                         w\<lparr>logged := logged w @ [(''error reading persisted config'', e)]\<rparr>)
           in case Unmarshal D configReader of
                (newConfig, err2) \<Rightarrow>
                  (let w2 = (case err2 of
                               None \<Rightarrow> w1
                             | Some e \<Rightarrow>
                                 w1\<lparr>logged := logged w1
                                      @ [(''error reading marshalled config'', e)]\<rparr>)
                   in createBucketContainer D s w2 newConfig)))"

text \<open>
  \<^verbatim>\<open>server.configListener\<close>: \<^verbatim>\<open>for range ch\<close> runs the body once for each signal. The
  loop below is the run over \<open>n\<close> signals received one after the other; the goroutine
  then waits for the next one, or returns when the channel is closed.
\<close>

primrec configListener ::
  "('r, 'e, 'p, 'v, 'x, 'c, 'h) Configs \<Rightarrow> nat \<Rightarrow> ('c, 'q, 'v, 'x, 'ep) server \<Rightarrow> ('h, 'p, 'e) world \<Rightarrow>
   ('c, 'q, 'v, 'x, 'ep) server \<times> ('h, 'p, 'e) world" where
  "configListener D 0 s w = (s, w)"
| "configListener D (Suc n) s w =
     (case readUpdatedConfig D s w of (s1, w1) \<Rightarrow> configListener D n s1 w1)"

primrec configListener_server_go ::
  "('r, 'e, 'p, 'v, 'x, 'c, 'h) Configs \<Rightarrow> nat \<Rightarrow> ('c, 'q, 'v, 'x, 'ep) server \<Rightarrow> ('h, 'p, 'e) world \<Rightarrow>
   ('c, 'q, 'v, 'x, 'ep) server \<times> ('h, 'p, 'e) world" where
  "configListener_server_go D 0 s w = (s, w)"
| "configListener_server_go D (Suc n) s w =
     (case configListener_body_server_go D s w of
        (s1, w1) \<Rightarrow> configListener_server_go D n s1 w1)"

text \<open>
  \<^verbatim>\<open>server.updateConfig\<close> of \<^verbatim>\<open>src/admin/ui_test.go\<close>, lines 276-301. The updater edits
  the clone in place and returns an error or nil: \<open>Inl\<close> the error, \<open>Inr\<close> the edited
  clone. \<open>now\<close> is \<^verbatim>\<open>time.Now().Unix()\<close>. A nil \<open>cfgs\<close> panics at
  \<^verbatim>\<open>clonedCfg.Version\<close>. The server is returned as the call leaves it.
\<close>

definition updateConfig ::
  "('r, 'e, 'p, 'v::len, 'x, 'c, 'h) Configs \<Rightarrow> string \<Rightarrow>
   (('v, 'x) ServiceConfig \<Rightarrow> 'e + ('v, 'x) ServiceConfig) \<Rightarrow> int64 \<Rightarrow>
   ('c, 'q, 'v, 'x, 'ep) server \<Rightarrow> ('h, 'p, 'e) world \<Rightarrow>
   panic + ('e option \<times> ('c, 'q, 'v, 'x, 'ep) server \<times> ('h, 'p, 'e) world)" where
  "updateConfig D user updater now s w =
     (case cfgs s of
        None \<Rightarrow> Inl NilPointerDereference
      | Some clonedCfg \<Rightarrow>
          (let currentVersion = Version clonedCfg
           in case updater clonedCfg of
                Inl err \<Rightarrow> Inr (Some err, s, w)
              | Inr edited \<Rightarrow>
                  (let defaulted = ApplyDefaults D edited;
                       stamped = defaulted\<lparr>User := user, Date := now,
                                   Version := currentVersion + 1\<rparr>
                   in case Marshal D (Some stamped) of
                        (r, Some e) \<Rightarrow> Inr (Some e, s, w)
                      | (r, None) \<Rightarrow>
                          (case PersistAndNotify D r (store w, watcher w) of
                             (err, p, ch) \<Rightarrow>
                               Inr (err, s, w\<lparr>store := p, watcher := ch\<rparr>)))))"

text \<open>
  \<^verbatim>\<open>server.updateConfig\<close> of \<^verbatim>\<open>src/server.go\<close>, lines 186-204. The clone of a nil
  \<open>cfgs\<close> is nil and goes to the updater as it is, so the updater works on an option.
\<close>

definition updateConfig_server_go ::
  "('r, 'e, 'p, 'v, 'x, 'c, 'h) Configs \<Rightarrow>
   (('v, 'x) ServiceConfig option \<Rightarrow> 'e + ('v, 'x) ServiceConfig option) \<Rightarrow>
   ('c, 'q, 'v, 'x, 'ep) server \<Rightarrow> ('h, 'p, 'e) world \<Rightarrow>
   'e option \<times> ('c, 'q, 'v, 'x, 'ep) server \<times> ('h, 'p, 'e) world" where
  "updateConfig_server_go D updater s w =
     (let clonedCfg = cfgs s
      in case updater clonedCfg of
           Inl err \<Rightarrow> (Some err, s, w)
         | Inr edited \<Rightarrow>
             (case Marshal D edited of
                (r, Some e) \<Rightarrow> (Some e, s, w)
              | (r, None) \<Rightarrow>
                  (case PersistAndNotify D r (store w, watcher w) of
                     (err, p, ch) \<Rightarrow> (err, s, w\<lparr>store := p, watcher := ch\<rparr>))))"

section \<open>The admin methods\<close>

text \<open>
  The editing functions of package config that the admin methods hand to
  \<^verbatim>\<open>updateConfig\<close>, with \<open>'bc\<close> for \<^verbatim>\<open>*pb.BucketConfig\<close> and \<open>'nc\<close> for
  \<^verbatim>\<open>*pb.NamespaceConfig\<close>. Each edits the clone and returns an error or nil.
\<close>

record (overloaded) ('v, 'x, 'e, 'bc, 'nc) ConfigEdits =
  config_CreateBucket :: "('v, 'x) ServiceConfig \<Rightarrow> string \<Rightarrow> 'bc \<Rightarrow> 'e + ('v, 'x) ServiceConfig"
  config_UpdateBucket :: "('v, 'x) ServiceConfig \<Rightarrow> string \<Rightarrow> 'bc \<Rightarrow> 'e + ('v, 'x) ServiceConfig"
  config_DeleteBucket :: "('v, 'x) ServiceConfig \<Rightarrow> string \<Rightarrow> string \<Rightarrow> 'e + ('v, 'x) ServiceConfig"
  config_CreateNamespace :: "('v, 'x) ServiceConfig \<Rightarrow> 'nc \<Rightarrow> 'e + ('v, 'x) ServiceConfig"
  config_UpdateNamespace :: "('v, 'x) ServiceConfig \<Rightarrow> 'nc \<Rightarrow> 'e + ('v, 'x) ServiceConfig"
  config_DeleteNamespace :: "('v, 'x) ServiceConfig \<Rightarrow> string \<Rightarrow> 'e + ('v, 'x) ServiceConfig"

text \<open>
  The seven admin methods of \<^verbatim>\<open>src/admin/ui_test.go\<close>, lines 310-351.
  \<^verbatim>\<open>UpdateConfig\<close> overwrites the clone with \<^verbatim>\<open>*c\<close>, which panics on a nil \<open>c\<close>.
\<close>

definition UpdateConfig ::
  "('r, 'e, 'p, 'v::len, 'x, 'c, 'h) Configs \<Rightarrow> ('v, 'x) ServiceConfig option \<Rightarrow> string \<Rightarrow>
   int64 \<Rightarrow> ('c, 'q, 'v, 'x, 'ep) server \<Rightarrow> ('h, 'p, 'e) world \<Rightarrow>
   panic + ('e option \<times> ('c, 'q, 'v, 'x, 'ep) server \<times> ('h, 'p, 'e) world)" where
  "UpdateConfig D c user now s w =
     (case c of
        None \<Rightarrow> Inl NilPointerDereference
      | Some c' \<Rightarrow> updateConfig D user (\<lambda>clonedCfg. Inr c') now s w)"

definition AddBucket ::
  "('r, 'e, 'p, 'v::len, 'x, 'c, 'h) Configs \<Rightarrow> ('v, 'x, 'e, 'bc, 'nc) ConfigEdits \<Rightarrow>
   string \<Rightarrow> 'bc \<Rightarrow> string \<Rightarrow> int64 \<Rightarrow> ('c, 'q, 'v, 'x, 'ep) server \<Rightarrow> ('h, 'p, 'e) world \<Rightarrow>
   panic + ('e option \<times> ('c, 'q, 'v, 'x, 'ep) server \<times> ('h, 'p, 'e) world)" where
  "AddBucket D C namespace b user now s w =
     updateConfig D user (\<lambda>clonedCfg. config_CreateBucket C clonedCfg namespace b) now s w"

definition UpdateBucket ::
  "('r, 'e, 'p, 'v::len, 'x, 'c, 'h) Configs \<Rightarrow> ('v, 'x, 'e, 'bc, 'nc) ConfigEdits \<Rightarrow>
   string \<Rightarrow> 'bc \<Rightarrow> string \<Rightarrow> int64 \<Rightarrow> ('c, 'q, 'v, 'x, 'ep) server \<Rightarrow> ('h, 'p, 'e) world \<Rightarrow>
   panic + ('e option \<times> ('c, 'q, 'v, 'x, 'ep) server \<times> ('h, 'p, 'e) world)" where
  "UpdateBucket D C namespace b user now s w =
     updateConfig D user (\<lambda>clonedCfg. config_UpdateBucket C clonedCfg namespace b) now s w"

definition DeleteBucket ::
  "('r, 'e, 'p, 'v::len, 'x, 'c, 'h) Configs \<Rightarrow> ('v, 'x, 'e, 'bc, 'nc) ConfigEdits \<Rightarrow>
   string \<Rightarrow> string \<Rightarrow> string \<Rightarrow> int64 \<Rightarrow> ('c, 'q, 'v, 'x, 'ep) server \<Rightarrow> ('h, 'p, 'e) world \<Rightarrow>
   panic + ('e option \<times> ('c, 'q, 'v, 'x, 'ep) server \<times> ('h, 'p, 'e) world)" where
  "DeleteBucket D C namespace name user now s w =
     updateConfig D user (\<lambda>clonedCfg. config_DeleteBucket C clonedCfg namespace name) now s w"

definition AddNamespace ::
  "('r, 'e, 'p, 'v::len, 'x, 'c, 'h) Configs \<Rightarrow> ('v, 'x, 'e, 'bc, 'nc) ConfigEdits \<Rightarrow>
   'nc \<Rightarrow> string \<Rightarrow> int64 \<Rightarrow> ('c, 'q, 'v, 'x, 'ep) server \<Rightarrow> ('h, 'p, 'e) world \<Rightarrow>
   panic + ('e option \<times> ('c, 'q, 'v, 'x, 'ep) server \<times> ('h, 'p, 'e) world)" where
  "AddNamespace D C n user now s w =
     updateConfig D user (\<lambda>clonedCfg. config_CreateNamespace C clonedCfg n) now s w"

definition UpdateNamespace ::
  "('r, 'e, 'p, 'v::len, 'x, 'c, 'h) Configs \<Rightarrow> ('v, 'x, 'e, 'bc, 'nc) ConfigEdits \<Rightarrow>
   'nc \<Rightarrow> string \<Rightarrow> int64 \<Rightarrow> ('c, 'q, 'v, 'x, 'ep) server \<Rightarrow> ('h, 'p, 'e) world \<Rightarrow>
   panic + ('e option \<times> ('c, 'q, 'v, 'x, 'ep) server \<times> ('h, 'p, 'e) world)" where
  "UpdateNamespace D C n user now s w =
     updateConfig D user (\<lambda>clonedCfg. config_UpdateNamespace C clonedCfg n) now s w"

definition DeleteNamespace ::
  "('r, 'e, 'p, 'v::len, 'x, 'c, 'h) Configs \<Rightarrow> ('v, 'x, 'e, 'bc, 'nc) ConfigEdits \<Rightarrow>
   string \<Rightarrow> string \<Rightarrow> int64 \<Rightarrow> ('c, 'q, 'v, 'x, 'ep) server \<Rightarrow> ('h, 'p, 'e) world \<Rightarrow>
   panic + ('e option \<times> ('c, 'q, 'v, 'x, 'ep) server \<times> ('h, 'p, 'e) world)" where
  "DeleteNamespace D C n user now s w =
     updateConfig D user (\<lambda>clonedCfg. config_DeleteNamespace C clonedCfg n) now s w"

section \<open>Start\<close>

text \<open>
  What \<^verbatim>\<open>Start\<close> calls on each RPC endpoint: \<^verbatim>\<open>rpcServer.Init(s)\<close> and
  \<^verbatim>\<open>rpcServer.Start()\<close>. An endpoint holds the server behind its interface, so what it
  does is an effect on the world \<open>'w\<close> and not on the fields of the server.
\<close>

record (overloaded) ('ep, 'c, 'q, 'v, 'x, 'w) Endpoints =
  rpcInit :: "'ep \<Rightarrow> ('c, 'q, 'v, 'x, 'ep) server \<Rightarrow> 'w \<Rightarrow> 'w"
  rpcStart :: "'ep \<Rightarrow> 'w \<Rightarrow> 'w"

text \<open>The loop over \<^verbatim>\<open>s.rpcEndpoints\<close> of \<^verbatim>\<open>Start\<close> (the same in both copies).\<close>

fun startEndpoints ::
  "('ep, 'c, 'q, 'v, 'x, 'w) Endpoints \<Rightarrow> 'ep list \<Rightarrow> ('c, 'q, 'v, 'x, 'ep) server \<Rightarrow> 'w \<Rightarrow> 'w" where
  "startEndpoints R [] s w = w"
| "startEndpoints R (rpcServer # rest) s w =
     startEndpoints R rest s (rpcStart R rpcServer (rpcInit R rpcServer s w))"

text \<open>
  \<^verbatim>\<open>go s.configListener(...)\<close>: the goroutine runs beside the caller. \<open>turns\<close> is the
  number of signals it is given time for before the caller returns; it takes that many
  of the waiting signals, or all of them when fewer wait, and then waits itself. The
  model lets it take them right after it is started.
\<close>

definition go_configListener ::
  "('r, 'e, 'p, 'v, 'x, 'c, 'h) Configs \<Rightarrow> nat \<Rightarrow> ('c, 'q, 'v, 'x, 'ep) server \<Rightarrow>
   ('h, 'p, 'e) world \<Rightarrow> ('c, 'q, 'v, 'x, 'ep) server \<times> ('h, 'p, 'e) world" where
  "go_configListener D turns s w =
     (let n = min turns (pending (watcher w))
      in configListener D n s
           (w\<lparr>watcher := (watcher w)\<lparr>pending := pending (watcher w) - n\<rparr>\<rparr>))"

definition go_configListener_server_go ::
  "('r, 'e, 'p, 'v, 'x, 'c, 'h) Configs \<Rightarrow> nat \<Rightarrow> ('c, 'q, 'v, 'x, 'ep) server \<Rightarrow>
   ('h, 'p, 'e) world \<Rightarrow> ('c, 'q, 'v, 'x, 'ep) server \<times> ('h, 'p, 'e) world" where
  "go_configListener_server_go D turns s w =
     (let n = min turns (pending (watcher w))
      in configListener_server_go D n s
           (w\<lparr>watcher := (watcher w)\<lparr>pending := pending (watcher w) - n\<rparr>\<rparr>))"

text \<open>
  \<^verbatim>\<open>server.Start\<close> of \<^verbatim>\<open>src/admin/ui_test.go\<close>, lines 116-146: the producer is
  registered, one receive on the persister's channel is awaited (\<open>None\<close> when it blocks
  for ever), \<^verbatim>\<open>readUpdatedConfig\<close> runs once, the listening goroutine is started, each
  RPC endpoint is initialised and started, and the status is set.
\<close>

definition Start ::
  "('r, 'e, 'p, 'v, 'x, 'c, 'h) Configs \<Rightarrow> ('q, 'h) Events \<Rightarrow>
   ('ep, 'c, 'q, 'v, 'x, ('h, 'p, 'e) world) Endpoints \<Rightarrow> nat \<Rightarrow>
   ('c, 'q, 'v, 'x, 'ep) server \<Rightarrow> ('h, 'p, 'e) world \<Rightarrow>
   ((bool \<times> 'e option) \<times> ('c, 'q, 'v, 'x, 'ep) server \<times> ('h, 'p, 'e) world) option" where
  "Start D E R turns s w =
     (let bufSize = (if eventQueueBufSize s < 1 then 1 else eventQueueBufSize s)
      in case RegisterListener E bufSize (heap w) of
           (q, h1) \<Rightarrow>
             (let s1 = s\<lparr>producer := Some q\<rparr>
              in case receive (watcher w) of
                   None \<Rightarrow> None
                 | Some ch \<Rightarrow>
                     (case readUpdatedConfig D s1 (w\<lparr>heap := h1, watcher := ch\<rparr>) of
                        (s2, w2) \<Rightarrow>
                          (case go_configListener D turns s2 w2 of
                             (s3, w3) \<Rightarrow>
                               Some ((True, None), s3\<lparr>currentStatus := Started\<rparr>,
                                     startEndpoints R (rpcEndpoints s3) s3 w3)))))"

text \<open>
  \<^verbatim>\<open>server.Start\<close> of \<^verbatim>\<open>src/server.go\<close>, lines 43-65: it starts the listening goroutine
  and the endpoints and returns, without a receive of its own.
\<close>

definition Start_server_go ::
  "('r, 'e, 'p, 'v, 'x, 'c, 'h) Configs \<Rightarrow> ('q, 'h) Events \<Rightarrow>
   ('ep, 'c, 'q, 'v, 'x, ('h, 'p, 'e) world) Endpoints \<Rightarrow> nat \<Rightarrow>
   ('c, 'q, 'v, 'x, 'ep) server \<Rightarrow> ('h, 'p, 'e) world \<Rightarrow>
   (bool \<times> 'e option) \<times> ('c, 'q, 'v, 'x, 'ep) server \<times> ('h, 'p, 'e) world" where
  "Start_server_go D E R turns s w =
     (case RegisterListener E (eventQueueBufSize s) (heap w) of
        (q, h1) \<Rightarrow>
          (case go_configListener_server_go D turns (s\<lparr>producer := Some q\<rparr>)
                  (w\<lparr>heap := h1\<rparr>) of
             (s3, w3) \<Rightarrow>
               ((True, None), s3\<lparr>currentStatus := Started\<rparr>,
                startEndpoints R (rpcEndpoints s3) s3 w3)))"

section \<open>HistoricalConfigs\<close>

text \<open>
  Modelled from the spec: the type \<^verbatim>\<open>SortedConfigs\<close> and its \<^verbatim>\<open>Less\<close> are not under
  \<^verbatim>\<open>src/\<close>. The spec (section 6, Admin API) has the history "sorted by version
  descending": \<open>Less a b\<close> holds when \<open>a\<close> has the greater version, read as a signed
  integer.
\<close>

definition SortedConfigs_Less :: "('v::len, 'x) ServiceConfig \<Rightarrow> ('v, 'x) ServiceConfig \<Rightarrow> bool" where
  "SortedConfigs_Less a b = (Version b <s Version a)"

text \<open>
  \<^verbatim>\<open>sort.Sort\<close> of the Go library, as an insertion sort on \<^verbatim>\<open>Less\<close>. The library's sort
  is not stable: configs of equal version come out in one of the permitted orders.
\<close>

fun sort_insert :: "('v::len, 'x) ServiceConfig \<Rightarrow> ('v, 'x) ServiceConfig list \<Rightarrow> ('v, 'x) ServiceConfig list" where
  "sort_insert x [] = [x]"
| "sort_insert x (y # ys) =
     (if SortedConfigs_Less y x then y # sort_insert x ys else x # y # ys)"

fun sort_Sort :: "('v::len, 'x) ServiceConfig list \<Rightarrow> ('v, 'x) ServiceConfig list" where
  "sort_Sort [] = []"
| "sort_Sort (x # xs) = sort_insert x (sort_Sort xs)"

text \<open>The order of the sorted history: a later config has no greater version.\<close>

definition version_desc :: "('v::len, 'x) ServiceConfig \<Rightarrow> ('v, 'x) ServiceConfig \<Rightarrow> bool" where
  "version_desc a b = (sint (Version b) \<le> sint (Version a))"

text \<open>The loop of \<^verbatim>\<open>HistoricalConfigs\<close>: it stops at the first reader that fails.\<close>

fun unmarshalConfigs ::
  "('r, 'e, 'p, 'v, 'x, 'c, 'h) Configs \<Rightarrow> 'r list \<Rightarrow> 'e + ('v, 'x) ServiceConfig option list" where
  "unmarshalConfigs D [] = Inr []"
| "unmarshalConfigs D (newConfig # rest) =
     (case Unmarshal D newConfig of
        (unmarshalledConfig, Some err) \<Rightarrow> Inl err
      | (unmarshalledConfig, None) \<Rightarrow>
          (case unmarshalConfigs D rest of
             Inl err \<Rightarrow> Inl err
           | Inr cs \<Rightarrow> Inr (unmarshalledConfig # cs)))"

text \<open>
  \<^verbatim>\<open>server.HistoricalConfigs\<close> of \<^verbatim>\<open>src/admin/ui_test.go\<close>, lines 377-399. \<open>Inr (Inl err)\<close>
  is the return of (nil, err). Sorting two or more configs calls \<^verbatim>\<open>Less\<close> on each of
  them, which panics on a nil one; a slice of fewer than two is returned as it is.
\<close>

definition HistoricalConfigs ::
  "('r, 'e, 'p, 'v::len, 'x, 'c, 'h) Configs \<Rightarrow> ('h, 'p, 'e) world \<Rightarrow>
   panic + ('e + ('v, 'x) ServiceConfig option list)" where
  "HistoricalConfigs D w =
     (case ReadHistoricalConfigs D (store w) of
        (configs, Some err) \<Rightarrow> Inr (Inl err)
      | (configs, None) \<Rightarrow>
          (case unmarshalConfigs D configs of
             Inl err \<Rightarrow> Inr (Inl err)
           | Inr unmarshalledConfigs \<Rightarrow>
               if length unmarshalledConfigs < 2 then Inr (Inr unmarshalledConfigs)
               else
                 (case those unmarshalledConfigs of
                    None \<Rightarrow> Inl NilPointerDereference
                  | Some cs \<Rightarrow> Inr (Inr (map Some (sort_Sort cs))))))"

section \<open>Instances of the parameters\<close>

text \<open>
  Small implementations of the absent interfaces, on which the model is run at concrete
  inputs. Their heap holds the number of containers built so far, the calls of
  \<^verbatim>\<open>Take\<close> (each with the tokens and the maximal wait it was given) and the producer's
  queue.
\<close>

record exampleHeap =
  containers :: nat
  takeCalls :: "(int64 \<times> Duration) list"
  queue :: "Event list"

definition heap1 :: exampleHeap where
  "heap1 = \<lparr>containers = 1, takeCalls = [], queue = []\<rparr>"

text \<open>
  A container whose lookup always answers \<open>found\<close> and whose single bucket answers
  \<open>answer\<close> to \<^verbatim>\<open>Take\<close>.
\<close>

definition stubBuckets ::
  "unit option \<times> string option \<Rightarrow> BucketConfig \<Rightarrow> bool \<Rightarrow> Duration \<times> bool \<Rightarrow>
   (unit, nat, exampleHeap, string) Buckets" where
  "stubBuckets found cfg dyn answer =
     \<lparr>FindBucket = (\<lambda>c namespace name h. (found, h)),
      Config = (\<lambda>b. cfg),
      Dynamic = (\<lambda>b. dyn),
      Take = (\<lambda>b n maxWait h. (answer, h\<lparr>takeCalls := takeCalls h @ [(n, maxWait)]\<rparr>))\<rparr>"

text \<open>A producer that keeps every event it is given, in order.\<close>

definition listEvents :: "(unit, exampleHeap) Events" where
  "listEvents =
     \<lparr>RegisterListener = (\<lambda>bufSize h. ((), h\<lparr>queue := []\<rparr>)),
      ProducerEmit = (\<lambda>q e h. h\<lparr>queue := queue h @ [e]\<rparr>)\<rparr>"

text \<open>
  A persister in memory: the store is the list of the persisted readers, newest first,
  and a reader is the config it holds (\<open>None\<close> for bytes that do not unmarshal).
  Persisting sends one signal. Applying the defaults sets a zero \<open>Contents\<close> to 1. A
  container is its number.
\<close>

definition memConfigs ::
  "((32, nat) ServiceConfig option, string, (32, nat) ServiceConfig option list,
    32, nat, nat, exampleHeap) Configs" where
  "memConfigs =
     \<lparr>ReadPersistedConfig =
        (\<lambda>p. case p of [] \<Rightarrow> (None, Some ''nothing persisted'') | r # older \<Rightarrow> (r, None)),
      ReadHistoricalConfigs = (\<lambda>p. (p, None)),
      PersistAndNotify = (\<lambda>r (p, ch). (None, r # p, ch\<lparr>pending := pending ch + 1\<rparr>)),
      Unmarshal =
        (\<lambda>r. case r of None \<Rightarrow> (None, Some ''cannot unmarshal'') | Some c \<Rightarrow> (Some c, None)),
      Marshal = (\<lambda>c. (c, None)),
      ApplyDefaults = (\<lambda>c. if Contents c = 0 then c\<lparr>Contents := 1\<rparr> else c),
      Init = (\<lambda>c h. h),
      NewBucketContainer = (\<lambda>c h. (containers h, h\<lparr>containers := Suc (containers h)\<rparr>))\<rparr>"

definition exampleConfig :: "32 word \<Rightarrow> (32, nat) ServiceConfig" where
  "exampleConfig v = \<lparr>Version = v, User = ''alice'', Date = 100, Contents = 0\<rparr>"

text \<open>A started server with container 0 and the config of version 5 installed.\<close>

definition exampleServer :: "(nat, unit, 32, nat, string) server" where
  "exampleServer =
     \<lparr>currentStatus = Started, bucketContainer = Some 0, rpcEndpoints = [''grpc''],
      eventQueueBufSize = 1, producer = Some (), cfgs = Some (exampleConfig 5)\<rparr>"

text \<open>The server that \<^verbatim>\<open>New\<close> returns, at the types of the instances.\<close>

definition newServer :: "(nat, unit, 32, nat, string) server" where
  "newServer =
     \<lparr>currentStatus = Initialized, bucketContainer = None, rpcEndpoints = [''grpc''],
      eventQueueBufSize = 0, producer = None, cfgs = None\<rparr>"

text \<open>An endpoint that writes a line to the log when it is started.\<close>

definition logEndpoints ::
  "(string, nat, unit, 32, nat,
    (exampleHeap, (32, nat) ServiceConfig option list, string) world) Endpoints" where
  "logEndpoints =
     \<lparr>rpcInit = (\<lambda>ep s w. w),
      rpcStart = (\<lambda>ep w. w\<lparr>logged := logged w @ [(''rpc endpoint started'', ep)]\<rparr>)\<rparr>"

definition exampleWorld ::
  "(32, nat) ServiceConfig option list \<Rightarrow> nat \<Rightarrow>
   (exampleHeap, (32, nat) ServiceConfig option list, string) world" where
  "exampleWorld persisted signals =
     \<lparr>heap = heap1, store = persisted, watcher = \<lparr>pending = signals, closed = False\<rparr>,
      logged = []\<rparr>"

section \<open>New returns a server without a container\<close>

lemma New_newServer:
  "New [''grpc''] = Inr newServer"
  "New [] = Inl (Panic ''Need at least 1 RPC endpoint to run the quota service.'')"
  by (simp_all add: New_def newServer_def)

section \<open>Allow: the wait passed to Take\<close>

text \<open>
  In the copy of \<^verbatim>\<open>src/admin/ui_test.go\<close>, a call that reaches \<^verbatim>\<open>Take\<close> passes it the
  override, in milliseconds, when the override is set and is less than the bucket's
  \<^verbatim>\<open>WaitTimeoutMillis\<close>, and the bucket's \<^verbatim>\<open>WaitTimeoutMillis\<close> otherwise. The product
  with \<^verbatim>\<open>time.Millisecond\<close> is an int64 product.
\<close>

lemma Allow_maxWait:
  assumes "FindBucket B (bucketContainer s) namespace name h = ((Some b, None), h1)"
    and "\<not> (MaxTokensPerRequest (Config B b) <s n \<and> 0 <s MaxTokensPerRequest (Config B b))"
  shows "Allow B E s h namespace name n ov use =
    (case Take B b n
            (Millisecond * (if use \<and> ov <s WaitTimeoutMillis (Config B b) then ov
                            else WaitTimeoutMillis (Config B b))) h1 of
       ((w, success), h2) \<Rightarrow>
         if success
         then ((w, Dynamic B b, None),
               Emit E s (NewTokensServedEvent namespace name (Dynamic B b) n w) h2)
         else ((0, Dynamic B b, Some ER_TIMEOUT),
               Emit E s (NewTimedOutEvent namespace name (Dynamic B b) n) h2))"
  using assms by (auto simp: Allow_def Let_def split: prod.splits)

text \<open>
  In the copy of \<^verbatim>\<open>src/server.go\<close> the override is passed whenever it is set, whatever
  the bucket's timeout.
\<close>

lemma Allow_server_go_maxWait:
  assumes "FindBucket B (bucketContainer s) namespace name h = ((Some b, None), h1)"
    and "\<not> (MaxTokensPerRequest (Config B b) <s n \<and> 0 <s MaxTokensPerRequest (Config B b))"
  shows "Allow_server_go B E s h namespace name n ov use =
    (case Take B b n
            (Millisecond * (if use then ov else WaitTimeoutMillis (Config B b))) h1 of
       ((w, success), h2) \<Rightarrow>
         if success
         then ((w, None),
               Emit E s (NewTokensServedEvent namespace name (Dynamic B b) n w) h2)
         else ((0, Some ER_TIMEOUT),
               Emit E s (NewTimedOutEvent namespace name (Dynamic B b) n) h2))"
  using assms by (auto simp: Allow_server_go_def Let_def split: prod.splits)

text \<open>
  C1. The claim: the wait passed to \<^verbatim>\<open>Take\<close> is the override only when the override is
  set and less than the bucket's \<^verbatim>\<open>wait_timeout_millis\<close>, so that an override above the
  timeout leaves the cap at the timeout. \<^verbatim>\<open>Allow\<close> of \<^verbatim>\<open>src/server.go\<close> run on a bucket
  with a timeout of 5000 ms and an override of 10000 ms: \<^verbatim>\<open>Take\<close> is called once, for one
  token, with 10000 ms (10000000000 ns) and not with the 5000 ms (5000000000 ns) of the
  bucket, which is what \<^verbatim>\<open>Allow\<close> of \<^verbatim>\<open>src/admin/ui_test.go\<close> passes on the same input.
\<close>

theorem Allow_server_go_override_above_timeout:
  "takeCalls (snd (Allow_server_go
       (stubBuckets (Some (), None) \<lparr>WaitTimeoutMillis = 5000, MaxTokensPerRequest = 0\<rparr>
          False (0, True))
       listEvents exampleServer heap1 ''ns'' ''b'' 1 10000 True))
     = [(1, 10000000000)]
   \<and> takeCalls (snd (Allow
       (stubBuckets (Some (), None) \<lparr>WaitTimeoutMillis = 5000, MaxTokensPerRequest = 0\<rparr>
          False (0, True))
       listEvents exampleServer heap1 ''ns'' ''b'' 1 10000 True))
     = [(1, 5000000000)]
   \<and> Millisecond * 5000 = (5000000000 :: Duration)"
  by (simp add: Allow_server_go_def Allow_def stubBuckets_def Millisecond_def Emit_def
      listEvents_def exampleServer_def heap1_def)

section \<open>Allow: results and events\<close>

text \<open>
  The copy of \<^verbatim>\<open>src/server.go\<close> has the same five ways out as the copy of
  \<^verbatim>\<open>src/admin/ui_test.go\<close>; it returns no dynamic flag.
\<close>

lemma Allow_server_go_outcomes:
  assumes "FindBucket B (bucketContainer s) namespace name h = ((b, e), h1)"
  shows
   "(e \<noteq> None \<and>
       Allow_server_go B E s h namespace name n ov use =
         ((0, Some ER_TOO_MANY_BUCKETS),
          Emit E s (NewBucketMissedEvent namespace name True) h1))
    \<or> (e = None \<and> b = None \<and>
       Allow_server_go B E s h namespace name n ov use =
         ((0, Some ER_NO_BUCKET),
          Emit E s (NewBucketMissedEvent namespace name False) h1))
    \<or> (\<exists>bk. e = None \<and> b = Some bk
         \<and> 0 <s MaxTokensPerRequest (Config B bk) \<and> MaxTokensPerRequest (Config B bk) <s n
         \<and> Allow_server_go B E s h namespace name n ov use =
             ((0, Some ER_TOO_MANY_TOKENS_REQUESTED),
              Emit E s (NewTooManyTokensRequestedEvent namespace name (Dynamic B bk) n) h1))
    \<or> (\<exists>bk w h2. e = None \<and> b = Some bk
         \<and> \<not> (0 <s MaxTokensPerRequest (Config B bk) \<and> MaxTokensPerRequest (Config B bk) <s n)
         \<and> Take B bk n
               (Millisecond * (if use then ov else WaitTimeoutMillis (Config B bk))) h1
             = ((w, False), h2)
         \<and> Allow_server_go B E s h namespace name n ov use =
             ((0, Some ER_TIMEOUT),
              Emit E s (NewTimedOutEvent namespace name (Dynamic B bk) n) h2))
    \<or> (\<exists>bk w h2. e = None \<and> b = Some bk
         \<and> \<not> (0 <s MaxTokensPerRequest (Config B bk) \<and> MaxTokensPerRequest (Config B bk) <s n)
         \<and> Take B bk n
               (Millisecond * (if use then ov else WaitTimeoutMillis (Config B bk))) h1
             = ((w, True), h2)
         \<and> Allow_server_go B E s h namespace name n ov use =
             ((w, None),
              Emit E s (NewTokensServedEvent namespace name (Dynamic B bk) n w) h2))"
proof (cases e)
  case (Some err)
  with assms show ?thesis by (simp add: Allow_server_go_def)
next
  case None
  note eNone = this
  show ?thesis
  proof (cases b)
    case None
    with eNone assms show ?thesis by (simp add: Allow_server_go_def)
  next
    case (Some bk)
    show ?thesis
    proof (cases "0 <s MaxTokensPerRequest (Config B bk) \<and> MaxTokensPerRequest (Config B bk) <s n")
      case True
      with Some eNone assms show ?thesis by (simp add: Allow_server_go_def)
    next
      case False
      obtain w ok h2 where t: "Take B bk n
               (Millisecond * (if use then ov else WaitTimeoutMillis (Config B bk))) h1
             = ((w, ok), h2)"
        by (metis prod.exhaust)
      have fb: "FindBucket B (bucketContainer s) namespace name h = ((Some bk, None), h1)"
        using assms Some eNone by simp
      have nt: "\<not> (MaxTokensPerRequest (Config B bk) <s n \<and> 0 <s MaxTokensPerRequest (Config B bk))"
        using False by blast
      have "Allow_server_go B E s h namespace name n ov use =
         (if ok then ((w, None),
               Emit E s (NewTokensServedEvent namespace name (Dynamic B bk) n w) h2)
         else ((0, Some ER_TIMEOUT),
               Emit E s (NewTimedOutEvent namespace name (Dynamic B bk) n) h2))"
        using Allow_server_go_maxWait [OF fb nt, of E ov use] t by simp
      with t False Some eNone show ?thesis by (cases ok) auto
    qed
  qed
qed

text \<open>The five ways out of \<^verbatim>\<open>Allow\<close> in the copy of \<^verbatim>\<open>src/admin/ui_test.go\<close>.\<close>

lemma Allow_five_outcomes:
  assumes "FindBucket B (bucketContainer s) namespace name h = ((b, e), h1)"
  shows
   "(e \<noteq> None \<and>
       Allow B E s h namespace name n ov use =
         ((0, True, Some ER_TOO_MANY_BUCKETS),
          Emit E s (NewBucketMissedEvent namespace name True) h1))
    \<or> (e = None \<and> b = None \<and>
       Allow B E s h namespace name n ov use =
         ((0, False, Some ER_NO_BUCKET),
          Emit E s (NewBucketMissedEvent namespace name False) h1))
    \<or> (\<exists>bk. e = None \<and> b = Some bk
         \<and> 0 <s MaxTokensPerRequest (Config B bk) \<and> MaxTokensPerRequest (Config B bk) <s n
         \<and> Allow B E s h namespace name n ov use =
             ((0, Dynamic B bk, Some ER_TOO_MANY_TOKENS_REQUESTED),
              Emit E s (NewTooManyTokensRequestedEvent namespace name (Dynamic B bk) n) h1))
    \<or> (\<exists>bk w h2. e = None \<and> b = Some bk
         \<and> \<not> (0 <s MaxTokensPerRequest (Config B bk) \<and> MaxTokensPerRequest (Config B bk) <s n)
         \<and> Take B bk n
               (Millisecond * (if use \<and> ov <s WaitTimeoutMillis (Config B bk) then ov
                               else WaitTimeoutMillis (Config B bk))) h1 = ((w, False), h2)
         \<and> Allow B E s h namespace name n ov use =
             ((0, Dynamic B bk, Some ER_TIMEOUT),
              Emit E s (NewTimedOutEvent namespace name (Dynamic B bk) n) h2))
    \<or> (\<exists>bk w h2. e = None \<and> b = Some bk
         \<and> \<not> (0 <s MaxTokensPerRequest (Config B bk) \<and> MaxTokensPerRequest (Config B bk) <s n)
         \<and> Take B bk n
               (Millisecond * (if use \<and> ov <s WaitTimeoutMillis (Config B bk) then ov
                               else WaitTimeoutMillis (Config B bk))) h1 = ((w, True), h2)
         \<and> Allow B E s h namespace name n ov use =
             ((w, Dynamic B bk, None),
              Emit E s (NewTokensServedEvent namespace name (Dynamic B bk) n w) h2))"
proof (cases e)
  case (Some err)
  with assms show ?thesis by (simp add: Allow_def)
next
  case None
  note eNone = this
  show ?thesis
  proof (cases b)
    case None
    with eNone assms show ?thesis by (simp add: Allow_def)
  next
    case (Some bk)
    show ?thesis
    proof (cases "0 <s MaxTokensPerRequest (Config B bk) \<and> MaxTokensPerRequest (Config B bk) <s n")
      case True
      with Some eNone assms show ?thesis by (simp add: Allow_def)
    next
      case False
      obtain w ok h2 where t: "Take B bk n
               (Millisecond * (if use \<and> ov <s WaitTimeoutMillis (Config B bk) then ov
                               else WaitTimeoutMillis (Config B bk))) h1 = ((w, ok), h2)"
        by (metis prod.exhaust)
      have fb: "FindBucket B (bucketContainer s) namespace name h = ((Some bk, None), h1)"
        using assms Some eNone by simp
      have nt: "\<not> (MaxTokensPerRequest (Config B bk) <s n \<and> 0 <s MaxTokensPerRequest (Config B bk))"
        using False by blast
      have "Allow B E s h namespace name n ov use =
         (if ok then ((w, Dynamic B bk, None),
               Emit E s (NewTokensServedEvent namespace name (Dynamic B bk) n w) h2)
         else ((0, Dynamic B bk, Some ER_TIMEOUT),
               Emit E s (NewTimedOutEvent namespace name (Dynamic B bk) n) h2))"
        using Allow_maxWait [OF fb nt, of E ov use] t by simp
      with t False Some eNone show ?thesis by (cases ok) auto
    qed
  qed
qed

text \<open>
  C2, as amended. A call of \<^verbatim>\<open>Allow\<close>, in either copy, ends in exactly one of five
  ways, tested in this order, each with its result, its one event and the heap it leaves:
  \<^item> \<^verbatim>\<open>FindBucket\<close> returns an error: the error \<^verbatim>\<open>TOO_MANY_BUCKETS\<close> and
    \<^verbatim>\<open>BUCKET_MISSED\<close> with the flag true;
  \<^item> no error and a nil bucket: the error \<^verbatim>\<open>NO_BUCKET\<close> and \<^verbatim>\<open>BUCKET_MISSED\<close> with
    the flag false;
  \<^item> a bucket whose \<^verbatim>\<open>MaxTokensPerRequest\<close> is positive and less than the request:
    the error \<^verbatim>\<open>TOO_MANY_TOKENS_REQUESTED\<close> and the event of that name,
    and \<^verbatim>\<open>Take\<close> is not called;
  \<^item> \<^verbatim>\<open>Take\<close> answers success = false: the error \<^verbatim>\<open>TIMEOUT\<close> with a zero wait and
    \<^verbatim>\<open>TIMED_OUT\<close>;
  \<^item> \<^verbatim>\<open>Take\<close> answers (wait, true): that wait with no error and \<^verbatim>\<open>TOKENS_SERVED\<close>
    with that wait.
  The three-valued copy returns \<^verbatim>\<open>b.Dynamic()\<close> as its second value once a bucket is
  resolved (true after an error of \<^verbatim>\<open>FindBucket\<close>, false for a nil bucket); the
  two-valued copy of \<^verbatim>\<open>src/server.go\<close> returns the wait and the error only.
\<close>

theorem Allow_result_and_event:
  assumes "FindBucket B (bucketContainer s) namespace name h = ((b, e), h1)"
  shows
   "((e \<noteq> None \<and>
       Allow B E s h namespace name n ov use =
         ((0, True, Some ER_TOO_MANY_BUCKETS),
          Emit E s (NewBucketMissedEvent namespace name True) h1))
    \<or> (e = None \<and> b = None \<and>
       Allow B E s h namespace name n ov use =
         ((0, False, Some ER_NO_BUCKET),
          Emit E s (NewBucketMissedEvent namespace name False) h1))
    \<or> (\<exists>bk. e = None \<and> b = Some bk
         \<and> 0 <s MaxTokensPerRequest (Config B bk) \<and> MaxTokensPerRequest (Config B bk) <s n
         \<and> Allow B E s h namespace name n ov use =
             ((0, Dynamic B bk, Some ER_TOO_MANY_TOKENS_REQUESTED),
              Emit E s (NewTooManyTokensRequestedEvent namespace name (Dynamic B bk) n) h1))
    \<or> (\<exists>bk w h2. e = None \<and> b = Some bk
         \<and> \<not> (0 <s MaxTokensPerRequest (Config B bk) \<and> MaxTokensPerRequest (Config B bk) <s n)
         \<and> Take B bk n
               (Millisecond * (if use \<and> ov <s WaitTimeoutMillis (Config B bk) then ov
                               else WaitTimeoutMillis (Config B bk))) h1 = ((w, False), h2)
         \<and> Allow B E s h namespace name n ov use =
             ((0, Dynamic B bk, Some ER_TIMEOUT),
              Emit E s (NewTimedOutEvent namespace name (Dynamic B bk) n) h2))
    \<or> (\<exists>bk w h2. e = None \<and> b = Some bk
         \<and> \<not> (0 <s MaxTokensPerRequest (Config B bk) \<and> MaxTokensPerRequest (Config B bk) <s n)
         \<and> Take B bk n
               (Millisecond * (if use \<and> ov <s WaitTimeoutMillis (Config B bk) then ov
                               else WaitTimeoutMillis (Config B bk))) h1 = ((w, True), h2)
         \<and> Allow B E s h namespace name n ov use =
             ((w, Dynamic B bk, None),
              Emit E s (NewTokensServedEvent namespace name (Dynamic B bk) n w) h2)))
    \<and>
    ((e \<noteq> None \<and>
       Allow_server_go B E s h namespace name n ov use =
         ((0, Some ER_TOO_MANY_BUCKETS),
          Emit E s (NewBucketMissedEvent namespace name True) h1))
    \<or> (e = None \<and> b = None \<and>
       Allow_server_go B E s h namespace name n ov use =
         ((0, Some ER_NO_BUCKET),
          Emit E s (NewBucketMissedEvent namespace name False) h1))
    \<or> (\<exists>bk. e = None \<and> b = Some bk
         \<and> 0 <s MaxTokensPerRequest (Config B bk) \<and> MaxTokensPerRequest (Config B bk) <s n
         \<and> Allow_server_go B E s h namespace name n ov use =
             ((0, Some ER_TOO_MANY_TOKENS_REQUESTED),
              Emit E s (NewTooManyTokensRequestedEvent namespace name (Dynamic B bk) n) h1))
    \<or> (\<exists>bk w h2. e = None \<and> b = Some bk
         \<and> \<not> (0 <s MaxTokensPerRequest (Config B bk) \<and> MaxTokensPerRequest (Config B bk) <s n)
         \<and> Take B bk n
               (Millisecond * (if use then ov else WaitTimeoutMillis (Config B bk))) h1
             = ((w, False), h2)
         \<and> Allow_server_go B E s h namespace name n ov use =
             ((0, Some ER_TIMEOUT),
              Emit E s (NewTimedOutEvent namespace name (Dynamic B bk) n) h2))
    \<or> (\<exists>bk w h2. e = None \<and> b = Some bk
         \<and> \<not> (0 <s MaxTokensPerRequest (Config B bk) \<and> MaxTokensPerRequest (Config B bk) <s n)
         \<and> Take B bk n
               (Millisecond * (if use then ov else WaitTimeoutMillis (Config B bk))) h1
             = ((w, True), h2)
         \<and> Allow_server_go B E s h namespace name n ov use =
             ((w, None),
              Emit E s (NewTokensServedEvent namespace name (Dynamic B bk) n w) h2)))"
  using Allow_five_outcomes [OF assms, of E n ov use]
    Allow_server_go_outcomes [OF assms, of E n ov use]
  by (rule conjI)

theorem Allow_result_and_event_witness:
  "Allow (stubBuckets (Some (), None) \<lparr>WaitTimeoutMillis = 20, MaxTokensPerRequest = 0\<rparr>
            True (7, True))
       listEvents exampleServer heap1 ''ns'' ''b'' 1 0 False
     = ((7, True, None),
        \<lparr>containers = 1, takeCalls = [(1, 20000000)],
         queue = [NewTokensServedEvent ''ns'' ''b'' True 1 7]\<rparr>)"
proof -
  let ?B = "stubBuckets (Some (), None)
              \<lparr>WaitTimeoutMillis = 20, MaxTokensPerRequest = 0\<rparr> True (7, True)"
  have f: "FindBucket ?B (bucketContainer exampleServer) ''ns'' ''b'' heap1
             = ((Some (), None), heap1)"
    by (simp add: stubBuckets_def)
  show ?thesis
    using Allow_result_and_event [OF f, of listEvents 1 0 False]
    by (simp add: stubBuckets_def Emit_def listEvents_def exampleServer_def Millisecond_def
        heap1_def word_sless_alt)
qed

text \<open>
  C2 as stated names four ways out and calls them the only ones. A request of 6 tokens
  on a bucket that allows 5 a request ends in a fifth: the error
  \<^verbatim>\<open>TOO_MANY_TOKENS_REQUESTED\<close> with the event of that name.
\<close>

theorem Allow_fifth_outcome:
  "Allow
      (stubBuckets (Some (), None) \<lparr>WaitTimeoutMillis = 0, MaxTokensPerRequest = 5\<rparr> False (0, True))
      listEvents exampleServer heap1 ''ns'' ''b'' 6 0 False
     = ((0, False, Some ER_TOO_MANY_TOKENS_REQUESTED),
        \<lparr>containers = 1, takeCalls = [],
         queue = [NewTooManyTokensRequestedEvent ''ns'' ''b'' False 6]\<rparr>)
   \<and> Allow_server_go
      (stubBuckets (Some (), None) \<lparr>WaitTimeoutMillis = 0, MaxTokensPerRequest = 5\<rparr> False (0, True))
      listEvents exampleServer heap1 ''ns'' ''b'' 6 0 False
     = ((0, Some ER_TOO_MANY_TOKENS_REQUESTED),
        \<lparr>containers = 1, takeCalls = [],
         queue = [NewTooManyTokensRequestedEvent ''ns'' ''b'' False 6]\<rparr>)
   \<and> Some ER_TOO_MANY_TOKENS_REQUESTED
       \<notin> {Some ER_NO_BUCKET, Some ER_TOO_MANY_BUCKETS, Some ER_TIMEOUT, None}"
  by (simp add: stubBuckets_def Allow_def Allow_server_go_def Emit_def listEvents_def
      exampleServer_def heap1_def word_sless_alt)

text \<open>
  C3. For a resolved bucket \<open>b\<close> and a request of \<open>n\<close> tokens: when
  \<^verbatim>\<open>MaxTokensPerRequest\<close> is positive and less than \<open>n\<close>, \<^verbatim>\<open>Allow\<close> emits
  \<^verbatim>\<open>TOO_MANY_TOKENS_REQUESTED\<close> and fails with that error, whatever \<^verbatim>\<open>Take\<close> would do
  (it is not called), and the heap is as \<^verbatim>\<open>FindBucket\<close> left it but for that one event
  in the producer's queue; when
  \<^verbatim>\<open>MaxTokensPerRequest\<close> is 0 no request fails with that error. Both copies of
  \<^verbatim>\<open>Allow\<close>.
\<close>

theorem Allow_too_many_tokens:
  assumes "FindBucket B (bucketContainer s) namespace name h = ((Some b, None), h1)"
  shows
   "(0 <s MaxTokensPerRequest (Config B b) \<and> MaxTokensPerRequest (Config B b) <s n \<longrightarrow>
       (\<forall>t. Allow (B\<lparr>Take := t\<rparr>) E s h namespace name n ov use =
              ((0, Dynamic B b, Some ER_TOO_MANY_TOKENS_REQUESTED),
               Emit E s (NewTooManyTokensRequestedEvent namespace name (Dynamic B b) n) h1))
       \<and> (\<forall>t. Allow_server_go (B\<lparr>Take := t\<rparr>) E s h namespace name n ov use =
              ((0, Some ER_TOO_MANY_TOKENS_REQUESTED),
               Emit E s (NewTooManyTokensRequestedEvent namespace name (Dynamic B b) n) h1)))
    \<and> (MaxTokensPerRequest (Config B b) = 0 \<longrightarrow>
         snd (snd (fst (Allow B E s h namespace name n ov use)))
           \<noteq> Some ER_TOO_MANY_TOKENS_REQUESTED
         \<and> snd (fst (Allow_server_go B E s h namespace name n ov use))
           \<noteq> Some ER_TOO_MANY_TOKENS_REQUESTED)"
  using assms
  by (auto simp: Allow_def Allow_server_go_def Let_def split: prod.splits)

theorem Allow_too_many_tokens_witness:
  "Allow (stubBuckets (Some (), None) \<lparr>WaitTimeoutMillis = 0, MaxTokensPerRequest = 5\<rparr>
            False (0, True))
       listEvents exampleServer heap1 ''ns'' ''b'' 6 0 False
     = ((0, False, Some ER_TOO_MANY_TOKENS_REQUESTED),
        \<lparr>containers = 1, takeCalls = [],
         queue = [NewTooManyTokensRequestedEvent ''ns'' ''b'' False 6]\<rparr>)
   \<and> fst (Allow (stubBuckets (Some (), None) \<lparr>WaitTimeoutMillis = 0, MaxTokensPerRequest = 0\<rparr>
            False (0, True))
       listEvents exampleServer heap1 ''ns'' ''b'' 9223372036854775807 0 False)
     = (0, False, None)"
proof -
  let ?B5 = "stubBuckets (Some (), None)
               \<lparr>WaitTimeoutMillis = 0, MaxTokensPerRequest = 5\<rparr> False (0, True)"
  let ?B0 = "stubBuckets (Some (), None)
               \<lparr>WaitTimeoutMillis = 0, MaxTokensPerRequest = 0\<rparr> False (0, True)"
  have f5: "FindBucket ?B5 (bucketContainer exampleServer) ''ns'' ''b'' heap1
              = ((Some (), None), heap1)"
    by (simp add: stubBuckets_def)
  have f0: "FindBucket ?B0 (bucketContainer exampleServer) ''ns'' ''b'' heap1
              = ((Some (), None), heap1)"
    by (simp add: stubBuckets_def)
  show ?thesis
    using Allow_too_many_tokens [OF f5, of 6 listEvents 0 False]
      Allow_too_many_tokens [OF f0, of 9223372036854775807 listEvents 0 False]
    by (simp add: stubBuckets_def Allow_def Emit_def listEvents_def exampleServer_def
        Millisecond_def heap1_def word_sless_alt)
qed

text \<open>
  C10. Every call of \<^verbatim>\<open>Allow\<close> makes one call of \<^verbatim>\<open>Emit\<close>: the heap it leaves is the heap
  that the same call leaves with a producer that drops every event, after one \<^verbatim>\<open>Emit\<close>
  of an event of one of the four kinds, which is \<^verbatim>\<open>TOKENS_SERVED\<close> exactly when the call
  returns no error. \<^verbatim>\<open>Emit\<close> without a producer changes nothing. The result of \<^verbatim>\<open>Allow\<close>
  is the same whatever the producer and the events package are.
\<close>

theorem Allow_emits_once:
  "(\<exists>ev. snd (Allow B E s h namespace name n ov use)
           = Emit E s ev
               (snd (Allow B (E\<lparr>ProducerEmit := (\<lambda>q e h. h)\<rparr>) s h namespace name n ov use))
         \<and> EventType ev \<in> {BUCKET_MISSED, TOO_MANY_TOKENS_REQUESTED, TIMED_OUT, TOKENS_SERVED}
         \<and> (EventType ev = TOKENS_SERVED)
             = (snd (snd (fst (Allow B E s h namespace name n ov use))) = None))
   \<and> (producer s = None \<longrightarrow> Emit E s e h = h)
   \<and> fst (Allow B E' (s\<lparr>producer := p\<rparr>) h namespace name n ov use)
       = fst (Allow B E s h namespace name n ov use)"
proof -
  let ?E0 = "E\<lparr>ProducerEmit := (\<lambda>q e h. h)\<rparr>"
  obtain b err h1 where fb: "FindBucket B (bucketContainer s) namespace name h = ((b, err), h1)"
    by (metis prod.exhaust)
  have silent: "\<And>ev h'. Emit ?E0 s ev h' = h'"
    by (simp add: Emit_def split: option.splits)
  have kinds: "\<And>ev. EventType ev \<in> {BUCKET_MISSED, TOO_MANY_TOKENS_REQUESTED, TIMED_OUT, TOKENS_SERVED}"
    subgoal for ev by (cases ev) simp_all
    done
  have one: "\<exists>ev. snd (Allow B E s h namespace name n ov use)
           = Emit E s ev (snd (Allow B ?E0 s h namespace name n ov use))
       \<and> (EventType ev = TOKENS_SERVED)
             = (snd (snd (fst (Allow B E s h namespace name n ov use))) = None)"
    using fb by (auto simp: Allow_def silent Let_def split: prod.splits option.splits)
  have noop: "producer s = None \<longrightarrow> Emit E s e h = h"
    by (simp add: Emit_def)
  have res: "fst (Allow B E' (s\<lparr>producer := p\<rparr>) h namespace name n ov use)
       = fst (Allow B E s h namespace name n ov use)"
    by (auto simp: Allow_def Let_def split: prod.splits option.splits)
  from one obtain ev where
    ev: "snd (Allow B E s h namespace name n ov use)
           = Emit E s ev (snd (Allow B ?E0 s h namespace name n ov use))
         \<and> (EventType ev = TOKENS_SERVED)
             = (snd (snd (fst (Allow B E s h namespace name n ov use))) = None)" ..
  have "\<exists>ev. snd (Allow B E s h namespace name n ov use)
           = Emit E s ev (snd (Allow B ?E0 s h namespace name n ov use))
         \<and> EventType ev \<in> {BUCKET_MISSED, TOO_MANY_TOKENS_REQUESTED, TIMED_OUT, TOKENS_SERVED}
         \<and> (EventType ev = TOKENS_SERVED)
             = (snd (snd (fst (Allow B E s h namespace name n ov use))) = None)"
    using conjunct1 [OF ev] kinds [of ev] conjunct2 [OF ev]
    by (intro exI [of _ ev] conjI)
  with noop res show ?thesis by (intro conjI)
qed

theorem Allow_emits_once_witness:
  "queue (snd (Allow
      (stubBuckets (None, None) \<lparr>WaitTimeoutMillis = 0, MaxTokensPerRequest = 0\<rparr> False (0, True))
      listEvents exampleServer heap1 ''ns'' ''b'' 1 0 False))
     = [NewBucketMissedEvent ''ns'' ''b'' False]
   \<and> Allow
      (stubBuckets (None, None) \<lparr>WaitTimeoutMillis = 0, MaxTokensPerRequest = 0\<rparr> False (0, True))
      listEvents newServer heap1 ''ns'' ''b'' 1 0 False
     = ((0, False, Some ER_NO_BUCKET), heap1)"
  using Allow_emits_once [where
      B = "stubBuckets (None, None) \<lparr>WaitTimeoutMillis = 0, MaxTokensPerRequest = 0\<rparr>
             False (0, True)"
      and E = listEvents and s = newServer and h = heap1 and namespace = "''ns''"
      and name = "''b''" and n = 1 and ov = 0 and use = False
      and e = "NewBucketMissedEvent ''ns'' ''b'' False" and E' = listEvents and p = None]
  by (simp add: stubBuckets_def Allow_def Emit_def listEvents_def exampleServer_def
      newServer_def heap1_def)

text \<open>The copy of \<^verbatim>\<open>src/server.go\<close> emits once on each path as well.\<close>

lemma Allow_server_go_emits_once:
  "\<exists>ev. snd (Allow_server_go B E s h namespace name n ov use)
          = Emit E s ev
              (snd (Allow_server_go B (E\<lparr>ProducerEmit := (\<lambda>q e h. h)\<rparr>) s h namespace name
                 n ov use))
        \<and> (EventType ev = TOKENS_SERVED)
            = (snd (fst (Allow_server_go B E s h namespace name n ov use)) = None)"
proof -
  obtain b err h1 where "FindBucket B (bucketContainer s) namespace name h = ((b, err), h1)"
    by (metis prod.exhaust)
  moreover have "\<And>ev h'. Emit (E\<lparr>ProducerEmit := (\<lambda>q e h. h)\<rparr>) s ev h' = h'"
    by (simp add: Emit_def split: option.splits)
  ultimately show ?thesis
    by (auto simp: Allow_server_go_def Let_def split: prod.splits option.splits)
qed

section \<open>Config mutations\<close>

text \<open>
  The copy of \<^verbatim>\<open>src/admin/ui_test.go\<close>: a mutation that succeeds has persisted the
  marshalled form of the edited clone, after \<^verbatim>\<open>ApplyDefaults\<close>, stamped with the user,
  the time and the version of the live config plus one (an addition of the version's
  integer type).
\<close>

lemma updateConfig_success:
  assumes "updateConfig D user updater now s w = Inr (None, s', w')"
  shows "\<exists>c edited r.
           cfgs s = Some c \<and> updater c = Inr edited
         \<and> Marshal D (Some ((ApplyDefaults D edited)
               \<lparr>User := user, Date := now, Version := Version c + 1\<rparr>)) = (r, None)
         \<and> PersistAndNotify D r (store w, watcher w) = (None, store w', watcher w')
         \<and> Version ((ApplyDefaults D edited)
               \<lparr>User := user, Date := now, Version := Version c + 1\<rparr>) = Version c + 1
         \<and> User ((ApplyDefaults D edited)
               \<lparr>User := user, Date := now, Version := Version c + 1\<rparr>) = user
         \<and> Date ((ApplyDefaults D edited)
               \<lparr>User := user, Date := now, Version := Version c + 1\<rparr>) = now
         \<and> Contents ((ApplyDefaults D edited)
               \<lparr>User := user, Date := now, Version := Version c + 1\<rparr>)
             = Contents (ApplyDefaults D edited)"
  using assms
  by (auto simp: updateConfig_def Let_def split: option.splits sum.splits prod.splits)

lemma updateConfig_persists:
  assumes "cfgs s = Some c" and "updater c = Inr edited"
    and "Marshal D (Some ((ApplyDefaults D edited)
               \<lparr>User := user, Date := now, Version := Version c + 1\<rparr>)) = (r, None)"
  shows "updateConfig D user updater now s w =
           (case PersistAndNotify D r (store w, watcher w) of
              (err, p, ch) \<Rightarrow> Inr (err, s, w\<lparr>store := p, watcher := ch\<rparr>))"
  using assms by (simp add: updateConfig_def Let_def)

text \<open>
  \<^verbatim>\<open>UpdateConfig\<close> replaces the whole clone by the given config, and still takes the
  version from the live config.
\<close>

lemma UpdateConfig_success:
  assumes "UpdateConfig D (Some c') user now s w = Inr (None, s', w')"
  shows "\<exists>c r. cfgs s = Some c
         \<and> Marshal D (Some ((ApplyDefaults D c')
               \<lparr>User := user, Date := now, Version := Version c + 1\<rparr>)) = (r, None)
         \<and> PersistAndNotify D r (store w, watcher w) = (None, store w', watcher w')"
  using updateConfig_success [of D user "\<lambda>clonedCfg. Inr c'" now s w s' w'] assms
  by (auto simp: UpdateConfig_def)

text \<open>
  The other six admin methods are \<^verbatim>\<open>updateConfig\<close> with the editing function of package
  config as the updater, so \<open>updateConfig_success\<close> holds of each of them.
\<close>

lemma admin_methods_updateConfig:
  "AddBucket D C namespace b user now s w
     = updateConfig D user (\<lambda>c. config_CreateBucket C c namespace b) now s w"
  "UpdateBucket D C namespace b user now s w
     = updateConfig D user (\<lambda>c. config_UpdateBucket C c namespace b) now s w"
  "DeleteBucket D C namespace name user now s w
     = updateConfig D user (\<lambda>c. config_DeleteBucket C c namespace name) now s w"
  "AddNamespace D C ns user now s w
     = updateConfig D user (\<lambda>c. config_CreateNamespace C c ns) now s w"
  "UpdateNamespace D C ns user now s w
     = updateConfig D user (\<lambda>c. config_UpdateNamespace C c ns) now s w"
  "DeleteNamespace D C n user now s w
     = updateConfig D user (\<lambda>c. config_DeleteNamespace C c n) now s w"
  by (simp_all add: AddBucket_def UpdateBucket_def DeleteBucket_def AddNamespace_def
      UpdateNamespace_def DeleteNamespace_def)

lemma AddBucket_success:
  assumes "AddBucket D C namespace b user now s w = Inr (None, s', w')"
  shows "\<exists>c edited r.
           cfgs s = Some c \<and> config_CreateBucket C c namespace b = Inr edited
         \<and> Marshal D (Some ((ApplyDefaults D edited)
               \<lparr>User := user, Date := now, Version := Version c + 1\<rparr>)) = (r, None)
         \<and> PersistAndNotify D r (store w, watcher w) = (None, store w', watcher w')"
  using updateConfig_success [of D user "\<lambda>c. config_CreateBucket C c namespace b" now s w s' w']
    assms
  by (auto simp: AddBucket_def)

text \<open>
  The copy of \<^verbatim>\<open>src/server.go\<close> persists the marshalled form of the edited clone as
  the updater left it.
\<close>

lemma updateConfig_server_go_persists:
  assumes "updater (cfgs s) = Inr edited" and "Marshal D edited = (r, None)"
  shows "updateConfig_server_go D updater s w =
           (case PersistAndNotify D r (store w, watcher w) of
              (err, p, ch) \<Rightarrow> (err, s, w\<lparr>store := p, watcher := ch\<rparr>))"
  using assms by (simp add: updateConfig_server_go_def Let_def)

text \<open>
  C4. The claim: every successful mutation persists a config whose version is the live
  version plus one, whose user is the given user, whose date is the time of the
  mutation, and to which \<^verbatim>\<open>ApplyDefaults\<close> has been applied. \<^verbatim>\<open>updateConfig\<close> of
  \<^verbatim>\<open>src/server.go\<close> run on a live config of version 5 with an updater that succeeds
  and changes nothing: the persisted config still has version 5, the user and the date
  of the live config, and no default applied. On the same input \<^verbatim>\<open>updateConfig\<close> of
  \<^verbatim>\<open>src/admin/ui_test.go\<close>, for the user bob at time 200, persists version 6, bob, 200
  and the default.
\<close>

theorem updateConfig_server_go_keeps_version:
  "updateConfig_server_go memConfigs Inr exampleServer (exampleWorld [Some (exampleConfig 5)] 0)
     = (None, exampleServer,
        \<lparr>heap = heap1,
         store = [Some \<lparr>Version = 5, User = ''alice'', Date = 100, Contents = 0\<rparr>,
                  Some \<lparr>Version = 5, User = ''alice'', Date = 100, Contents = 0\<rparr>],
         watcher = \<lparr>pending = 1, closed = False\<rparr>, logged = []\<rparr>)
   \<and> updateConfig memConfigs ''bob'' Inr 200 exampleServer
       (exampleWorld [Some (exampleConfig 5)] 0)
     = Inr (None, exampleServer,
        \<lparr>heap = heap1,
         store = [Some \<lparr>Version = 6, User = ''bob'', Date = 200, Contents = 1\<rparr>,
                  Some \<lparr>Version = 5, User = ''alice'', Date = 100, Contents = 0\<rparr>],
         watcher = \<lparr>pending = 1, closed = False\<rparr>, logged = []\<rparr>)"
  by (simp add: updateConfig_server_go_def updateConfig_def memConfigs_def exampleServer_def
      exampleWorld_def exampleConfig_def)

text \<open>
  C5. When the updater returns an error, or \<^verbatim>\<open>Marshal\<close> of the edited clone fails,
  \<^verbatim>\<open>updateConfig\<close> returns that error, and the server (its config and container) and
  the world (the persisted store, the channel, the heap) are as before, whatever
  \<^verbatim>\<open>PersistAndNotify\<close> would do: it is not called. Both copies of \<^verbatim>\<open>updateConfig\<close>.
\<close>

theorem updateConfig_error_is_atomic:
  "(cfgs s = Some c \<and> updater c = Inl err \<longrightarrow>
      updateConfig (D\<lparr>PersistAndNotify := f\<rparr>) user updater now s w = Inr (Some err, s, w))
   \<and> (cfgs s = Some c \<and> updater c = Inr edited
       \<and> Marshal D (Some ((ApplyDefaults D edited)
             \<lparr>User := user, Date := now, Version := Version c + 1\<rparr>)) = (r, Some err) \<longrightarrow>
      updateConfig (D\<lparr>PersistAndNotify := f\<rparr>) user updater now s w = Inr (Some err, s, w))
   \<and> (updater0 (cfgs s) = Inl err \<longrightarrow>
      updateConfig_server_go (D\<lparr>PersistAndNotify := f\<rparr>) updater0 s w = (Some err, s, w))
   \<and> (updater0 (cfgs s) = Inr edited0 \<and> Marshal D edited0 = (r, Some err) \<longrightarrow>
      updateConfig_server_go (D\<lparr>PersistAndNotify := f\<rparr>) updater0 s w = (Some err, s, w))"
  by (simp add: updateConfig_def updateConfig_server_go_def Let_def)

theorem updateConfig_error_is_atomic_witness:
  "updateConfig memConfigs ''bob'' (\<lambda>c. Inl ''no such namespace'') 200 exampleServer
       (exampleWorld [Some (exampleConfig 5)] 0)
     = Inr (Some ''no such namespace'', exampleServer, exampleWorld [Some (exampleConfig 5)] 0)
   \<and> updateConfig (memConfigs\<lparr>Marshal := (\<lambda>c. (None, Some ''cannot marshal''))\<rparr>) ''bob'' Inr 200
       exampleServer (exampleWorld [Some (exampleConfig 5)] 0)
     = Inr (Some ''cannot marshal'', exampleServer, exampleWorld [Some (exampleConfig 5)] 0)"
  using updateConfig_error_is_atomic [where s = exampleServer and c = "exampleConfig 5"
      and updater = "\<lambda>c. Inl ''no such namespace''" and err = "''no such namespace''"
      and D = memConfigs and f = "PersistAndNotify memConfigs" and user = "''bob''"
      and now = 200 and w = "exampleWorld [Some (exampleConfig 5)] 0"]
    updateConfig_error_is_atomic [where s = exampleServer and c = "exampleConfig 5"
      and updater = Inr and edited = "exampleConfig 5" and r = None
      and err = "''cannot marshal''"
      and D = "memConfigs\<lparr>Marshal := (\<lambda>c. (None, Some ''cannot marshal''))\<rparr>"
      and f = "PersistAndNotify memConfigs" and user = "''bob''"
      and now = 200 and w = "exampleWorld [Some (exampleConfig 5)] 0"]
  by (simp add: updateConfig_def memConfigs_def exampleServer_def)

section \<open>The reload path\<close>

lemma readUpdatedConfig_failure:
  "(ReadPersistedConfig D (store w) = (r, Some err) \<longrightarrow>
      readUpdatedConfig D s w
        = (s, w\<lparr>logged := logged w @ [(''error reading persisted config'', err)]\<rparr>))
   \<and> (ReadPersistedConfig D (store w) = (r, None) \<and> Unmarshal D r = (c, Some err) \<longrightarrow>
      readUpdatedConfig D s w
        = (s, w\<lparr>logged := logged w @ [(''error reading marshalled config'', err)]\<rparr>))"
  by (simp add: readUpdatedConfig_def)

lemma readUpdatedConfig_success:
  "ReadPersistedConfig D (store w) = (r, None) \<Longrightarrow> Unmarshal D r = (c, None) \<Longrightarrow>
     readUpdatedConfig D s w = createBucketContainer D s w c"
  by (simp add: readUpdatedConfig_def)

lemma createBucketContainer_installs:
  "cfgs (fst (createBucketContainer D s w c)) = c
   \<and> bucketContainer (fst (createBucketContainer D s w c))
       = Some (fst (NewBucketContainer D c (Init D c (heap w))))
   \<and> heap (snd (createBucketContainer D s w c))
       = snd (NewBucketContainer D c (Init D c (heap w)))"
  by (simp add: createBucketContainer_def Let_def split: prod.splits)

lemma createBucketContainer_frame:
  "currentStatus (fst (createBucketContainer D s w c)) = currentStatus s
   \<and> producer (fst (createBucketContainer D s w c)) = producer s
   \<and> watcher (snd (createBucketContainer D s w c)) = watcher w
   \<and> store (snd (createBucketContainer D s w c)) = store w"
  by (simp add: createBucketContainer_def Let_def split: prod.splits)

lemma readUpdatedConfig_installs_only_on_success:
  assumes "bucketContainer (fst (readUpdatedConfig D s w)) \<noteq> bucketContainer s
           \<or> cfgs (fst (readUpdatedConfig D s w)) \<noteq> cfgs s"
  shows "\<exists>r c. ReadPersistedConfig D (store w) = (r, None) \<and> Unmarshal D r = (c, None)"
  using assms
  by (auto simp: readUpdatedConfig_def split: prod.splits option.splits)

text \<open>
  C6. \<^verbatim>\<open>updateConfig\<close> returns the server as it found it, in either copy and whether it
  succeeds or fails, and leaves the heap of buckets alone (\<^verbatim>\<open>Allow\<close> and \<^verbatim>\<open>Emit\<close> write to
  no field of the server at all). The config and the container change in
  \<^verbatim>\<open>createBucketContainer\<close>, which \<^verbatim>\<open>readUpdatedConfig\<close> (and so one turn of
  \<^verbatim>\<open>configListener\<close>) calls with the config it has read and unmarshalled.
\<close>

theorem updateConfig_does_not_install:
  "(\<forall>err s' w'. updateConfig D user updater now s w = Inr (err, s', w') \<longrightarrow>
       s' = s \<and> heap w' = heap w)
   \<and> fst (snd (updateConfig_server_go D updater0 s w)) = s
   \<and> (\<forall>r c. ReadPersistedConfig D (store w) = (r, None) \<and> Unmarshal D r = (c, None) \<longrightarrow>
         readUpdatedConfig D s w = createBucketContainer D s w c
       \<and> configListener D (Suc 0) s w = createBucketContainer D s w c
       \<and> cfgs (fst (createBucketContainer D s w c)) = c
       \<and> bucketContainer (fst (createBucketContainer D s w c))
           = Some (fst (NewBucketContainer D c (Init D c (heap w)))))"
proof (intro conjI allI impI)
  fix err s' w'
  assume "updateConfig D user updater now s w = Inr (err, s', w')"
  then show "s' = s" and "heap w' = heap w"
    by (auto simp: updateConfig_def Let_def split: option.splits sum.splits prod.splits)
next
  show "fst (snd (updateConfig_server_go D updater0 s w)) = s"
    by (auto simp: updateConfig_server_go_def Let_def split: option.splits sum.splits prod.splits)
next
  fix r c
  assume a: "ReadPersistedConfig D (store w) = (r, None) \<and> Unmarshal D r = (c, None)"
  then show "readUpdatedConfig D s w = createBucketContainer D s w c"
    by (simp add: readUpdatedConfig_success)
  with a show "configListener D (Suc 0) s w = createBucketContainer D s w c"
    by (simp split: prod.splits)
  show "cfgs (fst (createBucketContainer D s w c)) = c"
    by (simp add: createBucketContainer_installs)
  show "bucketContainer (fst (createBucketContainer D s w c))
           = Some (fst (NewBucketContainer D c (Init D c (heap w))))"
    by (simp add: createBucketContainer_installs)
qed

theorem updateConfig_does_not_install_witness:
  "(case updateConfig memConfigs ''bob'' Inr 200 exampleServer
           (exampleWorld [Some (exampleConfig 5)] 0) of
      Inl p \<Rightarrow> False
    | Inr (err, s', w') \<Rightarrow>
        err = None \<and> s' = exampleServer
        \<and> readUpdatedConfig memConfigs s' w'
            = (exampleServer\<lparr>bucketContainer := Some 1,
                 cfgs := Some \<lparr>Version = 6, User = ''bob'', Date = 200, Contents = 1\<rparr>\<rparr>,
               w'\<lparr>heap := heap1\<lparr>containers := 2\<rparr>\<rparr>))"
  using updateConfig_does_not_install [where D = memConfigs and user = "''bob''"
      and updater = Inr and now = 200 and s = exampleServer
      and w = "exampleWorld [Some (exampleConfig 5)] 0"]
  by (simp add: updateConfig_def readUpdatedConfig_def createBucketContainer_def
      memConfigs_def exampleServer_def exampleWorld_def exampleConfig_def heap1_def)

text \<open>
  C7. The claim: when reading or unmarshalling the persisted config fails, the reload
  logs the error and returns, and the container and config of before stay. The body of
  \<^verbatim>\<open>configListener\<close> of \<^verbatim>\<open>src/server.go\<close> run on a server with container 0 and the
  config of version 5: with persisted bytes that do not unmarshal, and with nothing
  persisted at all, it logs and goes on to install container 1 with a nil config.
  \<^verbatim>\<open>readUpdatedConfig\<close> of \<^verbatim>\<open>src/admin/ui_test.go\<close> on the first input logs and leaves
  the server as it was.
\<close>

theorem configListener_server_go_installs_after_error:
  "configListener_body_server_go memConfigs exampleServer (exampleWorld [None] 0)
     = (exampleServer\<lparr>bucketContainer := Some 1, cfgs := None\<rparr>,
        \<lparr>heap = heap1\<lparr>containers := 2\<rparr>, store = [None],
         watcher = \<lparr>pending = 0, closed = False\<rparr>,
         logged = [(''error reading marshalled config'', ''cannot unmarshal'')]\<rparr>)
   \<and> configListener_body_server_go memConfigs exampleServer (exampleWorld [] 0)
     = (exampleServer\<lparr>bucketContainer := Some 1, cfgs := None\<rparr>,
        \<lparr>heap = heap1\<lparr>containers := 2\<rparr>, store = [],
         watcher = \<lparr>pending = 0, closed = False\<rparr>,
         logged = [(''error reading persisted config'', ''nothing persisted''),
                   (''error reading marshalled config'', ''cannot unmarshal'')]\<rparr>)
   \<and> readUpdatedConfig memConfigs exampleServer (exampleWorld [None] 0)
     = (exampleServer,
        \<lparr>heap = heap1, store = [None], watcher = \<lparr>pending = 0, closed = False\<rparr>,
         logged = [(''error reading marshalled config'', ''cannot unmarshal'')]\<rparr>)
   \<and> bucketContainer exampleServer = Some 0
   \<and> cfgs exampleServer = Some (exampleConfig 5)"
  by (simp add: configListener_body_server_go_def readUpdatedConfig_def
      createBucketContainer_def memConfigs_def exampleServer_def exampleWorld_def heap1_def)

section \<open>Start\<close>

lemma go_configListener_no_turn:
  "turns = 0 \<or> pending (watcher w) = 0 \<Longrightarrow> go_configListener D turns s w = (s, w)"
  "turns = 0 \<or> pending (watcher w) = 0 \<Longrightarrow> go_configListener_server_go D turns s w = (s, w)"
  by (auto simp: go_configListener_def go_configListener_server_go_def)

text \<open>\<^verbatim>\<open>Start\<close> of \<^verbatim>\<open>src/admin/ui_test.go\<close>, step by step.\<close>

lemma Start_run:
  "Start D E R turns s w =
     (case receive (watcher w) of
        None \<Rightarrow> None
      | Some ch \<Rightarrow>
          (case readUpdatedConfig D
                  (s\<lparr>producer := Some (fst (RegisterListener E
                      (if eventQueueBufSize s < 1 then 1 else eventQueueBufSize s) (heap w)))\<rparr>)
                  (w\<lparr>heap := snd (RegisterListener E
                      (if eventQueueBufSize s < 1 then 1 else eventQueueBufSize s) (heap w)),
                     watcher := ch\<rparr>) of
             (s2, w2) \<Rightarrow>
               (case go_configListener D turns s2 w2 of
                  (s3, w3) \<Rightarrow>
                    Some ((True, None), s3\<lparr>currentStatus := Started\<rparr>,
                          startEndpoints R (rpcEndpoints s3) s3 w3))))"
  by (simp add: Start_def Let_def case_prod_beta)

text \<open>It does not return while its receive on the persister's channel blocks.\<close>

lemma Start_blocks:
  "receive (watcher w) = None \<Longrightarrow> Start D E R turns s w = None"
  by (simp add: Start_run)

text \<open>
  Once the receive has completed it loads the config once. When the read and the
  unmarshal succeed, and the goroutine gets no turn before the return, \<^verbatim>\<open>Start\<close> returns
  with the container built from the persisted config.
\<close>

lemma Start_first_load_success:
  assumes "receive (watcher w) = Some ch"
    and "ReadPersistedConfig D (store w) = (r, None)" and "Unmarshal D r = (c, None)"
    and "turns = 0 \<or> pending ch = 0"
  shows "\<exists>s' w'. Start D E R turns s w = Some ((True, None), s', w')
            \<and> currentStatus s' = Started
            \<and> cfgs s' = c
            \<and> bucketContainer s'
                = Some (fst (NewBucketContainer D c
                    (Init D c (snd (RegisterListener E
                       (if eventQueueBufSize s < 1 then 1 else eventQueueBufSize s)
                       (heap w))))))"
proof -
  let ?reg = "RegisterListener E
                (if eventQueueBufSize s < 1 then 1 else eventQueueBufSize s) (heap w)"
  let ?s1 = "s\<lparr>producer := Some (fst ?reg)\<rparr>"
  let ?w1 = "w\<lparr>heap := snd ?reg, watcher := ch\<rparr>"
  have ru: "readUpdatedConfig D ?s1 ?w1 = createBucketContainer D ?s1 ?w1 c"
    using assms by (simp add: readUpdatedConfig_success)
  obtain s2 w2 where sw: "createBucketContainer D ?s1 ?w1 c = (s2, w2)"
    by (metis prod.exhaust)
  have props: "cfgs s2 = c"
    "bucketContainer s2 = Some (fst (NewBucketContainer D c (Init D c (snd ?reg))))"
    "watcher w2 = ch"
    using createBucketContainer_installs [of D ?s1 ?w1 c]
      createBucketContainer_frame [of D ?s1 ?w1 c] sw by simp_all
  have go: "go_configListener D turns s2 w2 = (s2, w2)"
    using assms(4) props(3) by (simp add: go_configListener_no_turn)
  have "Start D E R turns s w
      = Some ((True, None), s2\<lparr>currentStatus := Started\<rparr>,
              startEndpoints R (rpcEndpoints s2) s2 w2)"
    using assms(1) ru sw go by (simp add: Start_run)
  with props show ?thesis by simp
qed

text \<open>
  When the read or the unmarshal fails, \<^verbatim>\<open>Start\<close> logs the error, starts the endpoints
  and returns (true, nil) all the same, with the container and the config it found.
\<close>

lemma Start_first_load_failure:
  assumes "receive (watcher w) = Some ch"
    and "ReadPersistedConfig D (store w) = (r, Some err)
         \<or> ReadPersistedConfig D (store w) = (r, None) \<and> Unmarshal D r = (c, Some err)"
    and "turns = 0 \<or> pending ch = 0"
  shows "\<exists>s' w'. Start D E R turns s w = Some ((True, None), s', w')
            \<and> currentStatus s' = Started
            \<and> cfgs s' = cfgs s
            \<and> bucketContainer s' = bucketContainer s"
proof -
  let ?reg = "RegisterListener E
                (if eventQueueBufSize s < 1 then 1 else eventQueueBufSize s) (heap w)"
  let ?s1 = "s\<lparr>producer := Some (fst ?reg)\<rparr>"
  let ?w1 = "w\<lparr>heap := snd ?reg, watcher := ch\<rparr>"
  have "\<exists>msg. readUpdatedConfig D ?s1 ?w1 = (?s1, ?w1\<lparr>logged := logged w @ [(msg, err)]\<rparr>)"
    using assms(2) readUpdatedConfig_failure [of D ?w1 r err ?s1 c] by auto
  then obtain msg where
    ru: "readUpdatedConfig D ?s1 ?w1 = (?s1, ?w1\<lparr>logged := logged w @ [(msg, err)]\<rparr>)" ..
  have go: "go_configListener D turns ?s1 (?w1\<lparr>logged := logged w @ [(msg, err)]\<rparr>)
              = (?s1, ?w1\<lparr>logged := logged w @ [(msg, err)]\<rparr>)"
    using assms(3) by (simp add: go_configListener_no_turn)
  have "Start D E R turns s w
      = Some ((True, None), ?s1\<lparr>currentStatus := Started\<rparr>,
              startEndpoints R (rpcEndpoints ?s1) ?s1
                (?w1\<lparr>logged := logged w @ [(msg, err)]\<rparr>))"
    using assms(1) ru go by (simp add: Start_run)
  then show ?thesis by simp
qed

text \<open>
  \<^verbatim>\<open>Start\<close> of \<^verbatim>\<open>src/server.go\<close> returns (true, nil) whatever the channel holds; when
  the goroutine gets no turn before the return, the server has the container it had.
\<close>

lemma Start_server_go_does_not_wait:
  "fst (Start_server_go D E R turns s w) = (True, None)"
  "turns = 0 \<or> pending (watcher w) = 0 \<Longrightarrow>
     bucketContainer (fst (snd (Start_server_go D E R turns s w))) = bucketContainer s
     \<and> cfgs (fst (snd (Start_server_go D E R turns s w))) = cfgs s
     \<and> currentStatus (fst (snd (Start_server_go D E R turns s w))) = Started"
  by (simp_all add: Start_server_go_def go_configListener_no_turn Let_def split: prod.splits)

text \<open>
  C8. The claim: \<^verbatim>\<open>Start\<close> does not return until the first signal of the persister has
  been turned into an installed container, so that no \<^verbatim>\<open>Allow\<close> after it meets a nil
  container. \<^verbatim>\<open>Start\<close> of \<^verbatim>\<open>src/admin/ui_test.go\<close> run on the server that \<^verbatim>\<open>New\<close>
  returns, with one signal waiting and persisted bytes that do not unmarshal: it takes
  the signal, logs the error, starts the endpoint and returns (true, nil) with the
  status Started and no container. \<^verbatim>\<open>Start\<close> of \<^verbatim>\<open>src/server.go\<close> run on the same
  server, with one signal waiting and a persisted config that is sound, before the
  goroutine has had a turn: it starts the endpoint and returns (true, nil) with the
  signal still waiting and no container.
\<close>

theorem Start_returns_without_container:
  "Start memConfigs listEvents logEndpoints 1 newServer (exampleWorld [None] 1)
     = Some ((True, None),
         \<lparr>currentStatus = Started, bucketContainer = None, rpcEndpoints = [''grpc''],
          eventQueueBufSize = 0, producer = Some (), cfgs = None\<rparr>,
         \<lparr>heap = heap1, store = [None], watcher = \<lparr>pending = 0, closed = False\<rparr>,
          logged = [(''error reading marshalled config'', ''cannot unmarshal''),
                    (''rpc endpoint started'', ''grpc'')]\<rparr>)
   \<and> Start_server_go memConfigs listEvents logEndpoints 0 newServer
       (exampleWorld [Some (exampleConfig 5)] 1)
     = ((True, None),
         \<lparr>currentStatus = Started, bucketContainer = None, rpcEndpoints = [''grpc''],
          eventQueueBufSize = 0, producer = Some (), cfgs = None\<rparr>,
         \<lparr>heap = heap1, store = [Some (exampleConfig 5)],
          watcher = \<lparr>pending = 1, closed = False\<rparr>,
          logged = [(''rpc endpoint started'', ''grpc'')]\<rparr>)"
  by (simp add: Start_def Start_server_go_def go_configListener_def
      go_configListener_server_go_def receive_def readUpdatedConfig_def
      createBucketContainer_def memConfigs_def listEvents_def logEndpoints_def newServer_def
      exampleWorld_def heap1_def)

text \<open>
  On the same server with a sound persisted config, \<^verbatim>\<open>Start\<close> of
  \<^verbatim>\<open>src/admin/ui_test.go\<close> blocks while no signal waits and, with one, returns with
  container 1 installed.
\<close>

lemma Start_example:
  "Start memConfigs listEvents logEndpoints 1 newServer
       (exampleWorld [Some (exampleConfig 5)] 0) = None
   \<and> Start memConfigs listEvents logEndpoints 1 newServer
       (exampleWorld [Some (exampleConfig 5)] 1)
     = Some ((True, None),
         \<lparr>currentStatus = Started, bucketContainer = Some 1, rpcEndpoints = [''grpc''],
          eventQueueBufSize = 0, producer = Some (), cfgs = Some (exampleConfig 5)\<rparr>,
         \<lparr>heap = \<lparr>containers = 2, takeCalls = [], queue = []\<rparr>,
          store = [Some (exampleConfig 5)],
          watcher = \<lparr>pending = 0, closed = False\<rparr>,
          logged = [(''rpc endpoint started'', ''grpc'')]\<rparr>)"
  by (simp add: Start_def go_configListener_def receive_def readUpdatedConfig_def
      createBucketContainer_def memConfigs_def listEvents_def logEndpoints_def newServer_def
      exampleWorld_def heap1_def)

section \<open>The history of configs\<close>

lemma mset_sort_insert: "mset (sort_insert x ys) = add_mset x (mset ys)"
  by (induction ys) auto

lemma mset_sort_Sort: "mset (sort_Sort xs) = mset xs"
  by (induction xs) (auto simp: mset_sort_insert)

lemma set_sort_insert: "set (sort_insert x ys) = insert x (set ys)"
  by (induction ys) auto
lemma sorted_sort_insert:
  "sorted_wrt version_desc ys \<Longrightarrow> sorted_wrt version_desc (sort_insert x ys)"
proof (induction ys)
  case Nil
  then show ?case by simp
next
  case (Cons y ys)
  show ?case
  proof (cases "SortedConfigs_Less y x")
    case True
    then have "version_desc y x"
      by (simp add: SortedConfigs_Less_def version_desc_def word_sless_alt)
    with Cons True show ?thesis
      by (auto simp: set_sort_insert)
  next
    case False
    then have xy: "version_desc x y"
      by (simp add: SortedConfigs_Less_def version_desc_def word_sless_alt)
    have "\<forall>z\<in>set ys. version_desc x z"
      using Cons.prems xy by (auto simp: version_desc_def)
    with Cons.prems xy False show ?thesis by simp
  qed
qed

lemma sorted_sort_Sort: "sorted_wrt version_desc (sort_Sort xs)"
  by (induction xs) (auto intro: sorted_sort_insert)

lemma unmarshalConfigs_Inr:
  "unmarshalConfigs D rs = Inr cs \<Longrightarrow>
     cs = map (\<lambda>r. fst (Unmarshal D r)) rs \<and> (\<forall>r\<in>set rs. snd (Unmarshal D r) = None)"
  by (induction rs arbitrary: cs) (auto split: prod.splits option.splits sum.splits)

lemma unmarshalConfigs_ok:
  "\<forall>r\<in>set rs. snd (Unmarshal D r) = None \<Longrightarrow>
     unmarshalConfigs D rs = Inr (map (\<lambda>r. fst (Unmarshal D r)) rs)"
  by (induction rs) (auto split: prod.splits option.splits sum.splits)

lemma unmarshalConfigs_Inl:
  "unmarshalConfigs D rs = Inl err \<Longrightarrow> \<exists>r\<in>set rs. snd (Unmarshal D r) = Some err"
  by (induction rs) (auto split: prod.splits option.splits sum.splits)

lemma unmarshalConfigs_fails:
  assumes "\<exists>r\<in>set rs. snd (Unmarshal D r) \<noteq> None"
  shows "\<exists>err. unmarshalConfigs D rs = Inl err"
proof (cases "unmarshalConfigs D rs")
  case (Inl err)
  then show ?thesis by blast
next
  case (Inr cs)
  from unmarshalConfigs_Inr [OF this] assms show ?thesis by auto
qed

lemma those_map_Some: "those xs = Some ys \<Longrightarrow> xs = map Some ys"
  by (induction xs arbitrary: ys) (auto split: option.splits)

lemma those_None: "those xs = None \<Longrightarrow> None \<in> set xs"
  by (induction xs) (auto split: option.splits)


lemma HistoricalConfigs_read_error:
  "ReadHistoricalConfigs D (store w) = (configs, Some err) \<Longrightarrow>
     HistoricalConfigs D w = Inr (Inl err)"
  by (simp add: HistoricalConfigs_def)

lemma HistoricalConfigs_unmarshal_error:
  "ReadHistoricalConfigs D (store w) = (configs, None) \<Longrightarrow>
   unmarshalConfigs D configs = Inl err \<Longrightarrow>
     HistoricalConfigs D w = Inr (Inl err)"
  by (simp add: HistoricalConfigs_def)

lemma HistoricalConfigs_unmarshalled:
  "ReadHistoricalConfigs D (store w) = (configs, None) \<Longrightarrow>
   unmarshalConfigs D configs = Inr cs \<Longrightarrow>
     HistoricalConfigs D w =
       (if length cs < 2 then Inr (Inr cs)
        else case those cs of
               None \<Rightarrow> Inl NilPointerDereference
             | Some vs \<Rightarrow> Inr (Inr (map Some (sort_Sort vs))))"
  by (simp add: HistoricalConfigs_def)

lemma HistoricalConfigs_Inr_Inr:
  assumes "ReadHistoricalConfigs D (store w) = (configs, rerr)"
    and "HistoricalConfigs D w = Inr (Inr res)"
  shows "rerr = None"
    and "unmarshalConfigs D configs = Inr (map (\<lambda>r. fst (Unmarshal D r)) configs)"
proof -
  show r: "rerr = None"
  proof (cases rerr)
    case None then show ?thesis .
  next
    case (Some err)
    with assms HistoricalConfigs_read_error [of D w configs err] show ?thesis by simp
  qed
  show "unmarshalConfigs D configs = Inr (map (\<lambda>r. fst (Unmarshal D r)) configs)"
  proof (cases "unmarshalConfigs D configs")
    case (Inl err)
    with assms r HistoricalConfigs_unmarshal_error [of D w configs err] show ?thesis by simp
  next
    case (Inr cs)
    with unmarshalConfigs_Inr [OF Inr] show ?thesis by simp
  qed
qed

lemma HistoricalConfigs_all_unmarshalled:
  assumes rd: "ReadHistoricalConfigs D (store w) = (configs, None)"
    and ok: "\<forall>r\<in>set configs. snd (Unmarshal D r) = None \<and> fst (Unmarshal D r) \<noteq> None"
  shows "\<exists>out. HistoricalConfigs D w = Inr (Inr (map Some out))
               \<and> sorted_wrt (\<lambda>a b. sint (Version b) \<le> sint (Version a)) out
               \<and> mset (map Some out) = mset (map (\<lambda>r. fst (Unmarshal D r)) configs)"
proof -
  let ?cs = "map (\<lambda>r. fst (Unmarshal D r)) configs"
  have u: "unmarshalConfigs D configs = Inr ?cs"
    using ok by (simp add: unmarshalConfigs_ok)
  have "None \<notin> set ?cs" using ok by auto
  then obtain vs where vs: "those ?cs = Some vs"
    using those_None [of ?cs] by (cases "those ?cs") auto
  have cs: "?cs = map Some vs" by (rule those_map_Some [OF vs])
  note hc = HistoricalConfigs_unmarshalled [OF rd u]
  show ?thesis
  proof (cases "length ?cs < 2")
    case True
    then have "length vs < 2" using cs by (metis length_map)
    then have "sorted_wrt (\<lambda>a b. sint (Version b) \<le> sint (Version a)) vs"
      by (cases vs) (auto simp: less_Suc_eq)
    moreover have "HistoricalConfigs D w = Inr (Inr (map Some vs))"
      using hc True cs by simp
    ultimately show ?thesis using cs by (intro exI [of _ vs]) simp
  next
    case False
    have "HistoricalConfigs D w = Inr (Inr (map Some (sort_Sort vs)))"
      using hc False vs by simp
    moreover have "sorted_wrt (\<lambda>a b. sint (Version b) \<le> sint (Version a)) (sort_Sort vs)"
      using sorted_sort_Sort [of vs] by (simp add: version_desc_def [abs_def])
    moreover have "mset (map Some (sort_Sort vs)) = mset ?cs"
      unfolding cs by (simp add: mset_sort_Sort)
    ultimately show ?thesis by (intro exI [of _ "sort_Sort vs"]) simp
  qed
qed

lemma HistoricalConfigs_result:
  assumes rd: "ReadHistoricalConfigs D (store w) = (configs, rerr)"
    and r: "HistoricalConfigs D w = Inr (Inr res)"
  shows "mset res = mset (map (\<lambda>r. fst (Unmarshal D r)) configs)
     \<and> sorted_wrt (\<lambda>a b. case (a, b) of
                           (Some x, Some y) \<Rightarrow> sint (Version y) \<le> sint (Version x)
                         | _ \<Rightarrow> False) res"
proof -
  let ?cs = "map (\<lambda>r. fst (Unmarshal D r)) configs"
  note re = HistoricalConfigs_Inr_Inr(1) [OF rd r]
  note u = HistoricalConfigs_Inr_Inr(2) [OF rd r]
  note hc = HistoricalConfigs_unmarshalled [OF rd [unfolded re] u]
  show ?thesis
  proof (cases "length ?cs < 2")
    case True
    then have "res = ?cs" using hc r by simp
    with True show ?thesis by (cases res) (auto simp: less_Suc_eq)
  next
    case False
    then obtain vs where vs: "those ?cs = Some vs" and res: "res = map Some (sort_Sort vs)"
      using hc r by (cases "those ?cs") auto
    have cs: "?cs = map Some vs" by (rule those_map_Some [OF vs])
    have "sorted_wrt version_desc (sort_Sort vs)" by (rule sorted_sort_Sort)
    then have "sorted_wrt (\<lambda>a b. case (a, b) of
                           (Some x, Some y) \<Rightarrow> sint (Version y) \<le> sint (Version x)
                         | _ \<Rightarrow> False) res"
      unfolding res by (simp add: sorted_wrt_map version_desc_def [abs_def])
    moreover have "mset res = mset ?cs"
      unfolding res cs by (simp add: mset_sort_Sort)
    ultimately show ?thesis by simp
  qed
qed

text \<open>
  C9. \<^verbatim>\<open>HistoricalConfigs\<close> returns (nil, err) when reading the history fails, and when
  unmarshalling one of its readers fails (with the error of that reader); when every
  reader unmarshals to a config it returns these configs, each as often as it was
  read, in an order in which the version never increases.
\<close>

theorem HistoricalConfigs_sorted:
  assumes rd: "ReadHistoricalConfigs D (store w) = (configs, rerr)"
  shows
   "(\<forall>err. rerr = Some err \<longrightarrow> HistoricalConfigs D w = Inr (Inl err))
    \<and> (rerr = None \<and> (\<exists>r\<in>set configs. snd (Unmarshal D r) \<noteq> None) \<longrightarrow>
         (\<exists>err. HistoricalConfigs D w = Inr (Inl err)
               \<and> (\<exists>r\<in>set configs. snd (Unmarshal D r) = Some err)))
    \<and> (rerr = None
         \<and> (\<forall>r\<in>set configs. snd (Unmarshal D r) = None \<and> fst (Unmarshal D r) \<noteq> None) \<longrightarrow>
         (\<exists>out. HistoricalConfigs D w = Inr (Inr (map Some out))
               \<and> sorted_wrt (\<lambda>a b. sint (Version b) \<le> sint (Version a)) out
               \<and> mset (map Some out) = mset (map (\<lambda>r. fst (Unmarshal D r)) configs)))"
proof (intro conjI impI allI)
  fix err
  assume "rerr = Some err"
  with rd show "HistoricalConfigs D w = Inr (Inl err)"
    by (simp add: HistoricalConfigs_read_error)
next
  assume a: "rerr = None \<and> (\<exists>r\<in>set configs. snd (Unmarshal D r) \<noteq> None)"
  then obtain err where e: "unmarshalConfigs D configs = Inl err"
    using unmarshalConfigs_fails [of configs D] by auto
  have "HistoricalConfigs D w = Inr (Inl err)"
    using HistoricalConfigs_unmarshal_error [OF _ e] rd a by simp
  with unmarshalConfigs_Inl [OF e]
  show "\<exists>err. HistoricalConfigs D w = Inr (Inl err)
               \<and> (\<exists>r\<in>set configs. snd (Unmarshal D r) = Some err)"
    by (intro exI [of _ err]) simp
next
  assume a: "rerr = None
         \<and> (\<forall>r\<in>set configs. snd (Unmarshal D r) = None \<and> fst (Unmarshal D r) \<noteq> None)"
  show "\<exists>out. HistoricalConfigs D w = Inr (Inr (map Some out))
               \<and> sorted_wrt (\<lambda>a b. sint (Version b) \<le> sint (Version a)) out
               \<and> mset (map Some out) = mset (map (\<lambda>r. fst (Unmarshal D r)) configs)"
    using HistoricalConfigs_all_unmarshalled [of D w configs] rd a by simp
qed

theorem HistoricalConfigs_sorted_witness:
  "HistoricalConfigs memConfigs
      (exampleWorld [Some (exampleConfig 1), Some (exampleConfig 3), Some (exampleConfig 2)] 0)
     = Inr (Inr [Some (exampleConfig 3), Some (exampleConfig 2), Some (exampleConfig 1)])
   \<and> HistoricalConfigs memConfigs (exampleWorld [Some (exampleConfig 1), None] 0)
     = Inr (Inl ''cannot unmarshal'')"
proof -
  let ?w3 = "exampleWorld
               [Some (exampleConfig 1), Some (exampleConfig 3), Some (exampleConfig 2)] 0"
  let ?w2 = "exampleWorld [Some (exampleConfig 1), None] 0"
  have r3: "ReadHistoricalConfigs memConfigs (store ?w3)
              = ([Some (exampleConfig 1), Some (exampleConfig 3), Some (exampleConfig 2)], None)"
    by (simp add: memConfigs_def exampleWorld_def)
  have r2: "ReadHistoricalConfigs memConfigs (store ?w2) = ([Some (exampleConfig 1), None], None)"
    by (simp add: memConfigs_def exampleWorld_def)
  show ?thesis
    using HistoricalConfigs_sorted [OF r3] HistoricalConfigs_sorted [OF r2]
    by (simp add: HistoricalConfigs_def memConfigs_def exampleWorld_def exampleConfig_def
        SortedConfigs_Less_def word_sless_alt)
qed

end
